theory Spec2Isabelle
  imports Complex_Main "HOL-Library.Multiset"
begin

section \<open>Data model\<close>

text \<open>
  The relational store of the furniture shop, as the Prisma schema and the
  migrations declare it. Every table is a list of rows in storage order. Ids are
  the integers of the \<^verbatim>\<open>SERIAL\<close> primary keys; money is a rational number
  (the columns are \<^verbatim>\<open>DECIMAL(10,2)\<close>), and the handlers' arithmetic on
  \<^verbatim>\<open>Number(furniture.price)\<close> is the arithmetic of the rationals; timestamps
  are integers. Columns that no modelled handler reads (names, SKU, dimensions,
  image URLs, e-mail, password) are left out.
\<close>

datatype OrderStatus = PENDING | COMPLETED | CANCELLED

record user =
  user_id :: int

record category =
  category_id :: int

record furniture =
  furniture_id :: int
  furniture_categoryId :: int
  furniture_price :: rat
  furniture_createdAt :: int

record review =
  review_id :: int
  review_userId :: int
  review_furnitureId :: int
  review_rating :: int
  review_comment :: "string option"

record cart =
  cart_id :: int
  cart_userId :: int

record cartItem =
  cartItem_id :: int
  cartItem_cartId :: int
  cartItem_furnitureId :: int
  cartItem_quantity :: int

record order =
  order_id :: int
  order_userId :: "int option"
  order_totalAmount :: rat
  order_status :: OrderStatus

record orderItem =
  orderItem_id :: int
  orderItem_orderId :: int
  orderItem_furnitureId :: int
  orderItem_quantity :: int
  orderItem_unitPrice :: rat

record db =
  users :: "user list"
  categories :: "category list"
  furnitures :: "furniture list"
  reviews :: "review list"
  carts :: "cart list"
  cartItems :: "cartItem list"
  orders :: "order list"
  orderItems :: "orderItem list"

text \<open>
  What a handler hands to \<^verbatim>\<open>next(err)\<close>: an \<^verbatim>\<open>ApiError\<close> with its status code
  and message, a Zod parse error, a validation error of the Prisma client, a
  \<^verbatim>\<open>PrismaClientKnownRequestError\<close> with its code, any other database error,
  a JavaScript \<^verbatim>\<open>TypeError\<close>, or a plain \<^verbatim>\<open>Error\<close> with its message.
\<close>

datatype error =
    ApiError int string
  | ZodError
  | PrismaValidationError
  | PrismaKnownRequestError string
  | DatabaseError
  | TypeError
  | JsError string


section \<open>Order status transitions\<close>

text \<open>
  \<^verbatim>\<open>updateOrderStatus\<close> (PATCH /orders/:id/status), after \<^verbatim>\<open>orderIdSchema\<close> and
  \<^verbatim>\<open>updateOrderStatusSchema\<close> have parsed the id and the status. The handler
  returns its response or error together with the store it leaves behind.
\<close>

definition updateOrderStatus :: "db \<Rightarrow> int \<Rightarrow> OrderStatus \<Rightarrow> (error + order) \<times> db" where
  "updateOrderStatus d oid status =
     (case find (\<lambda>x. order_id x = oid) (orders d) of
        None \<Rightarrow> (Inl (ApiError 404 ''Order not found''), d)
      | Some existingOrder \<Rightarrow>
          if order_status existingOrder = COMPLETED \<and> status \<noteq> COMPLETED
          then (Inl (ApiError 400 ''Cannot change status of completed order''), d)
          else if order_status existingOrder = CANCELLED \<and> status \<noteq> CANCELLED
          then (Inl (ApiError 400 ''Cannot change status of cancelled order''), d)
          else (Inr (existingOrder\<lparr>order_status := status\<rparr>),
                d\<lparr>orders := map (\<lambda>x. if order_id x = oid then x\<lparr>order_status := status\<rparr> else x)
                                 (orders d)\<rparr>))"

section \<open>Order creation and checkout\<close>

text \<open>
  A request item \<^verbatim>\<open>{furnitureId, quantity}\<close> and the row data
  \<^verbatim>\<open>{furnitureId, quantity, unitPrice}\<close> that the handlers build from it.
\<close>

record orderItemInput =
  item_furnitureId :: int
  item_quantity :: int

record OrderItemData =
  data_furnitureId :: int
  data_quantity :: int
  data_unitPrice :: rat

record guestInfo =
  guest_email :: string
  guest_name :: "string option"

text \<open>
  The two write statements of the order handlers. Each awaited Prisma write may
  reject; \<open>faults s\<close> says that statement \<open>s\<close> rejects in this run of the handler.
  Reads are taken to succeed.
\<close>

datatype statement = OrderCreate | CartItemDeleteMany

type_synonym faults = "statement \<Rightarrow> bool"

definition no_faults :: faults where
  "no_faults = (\<lambda>s. False)"

text \<open>JavaScript truthiness of an optional numeric id: \<^verbatim>\<open>undefined\<close> and 0 are falsy.\<close>

fun truthy :: "int option \<Rightarrow> bool" where
  "truthy None = False"
| "truthy (Some n) = (n \<noteq> 0)"

text \<open>The next value of a \<^verbatim>\<open>SERIAL\<close> column: one above every id in use.\<close>

definition next_id :: "int list \<Rightarrow> int" where
  "next_id ids = fold max ids 0 + 1"

fun new_items :: "int \<Rightarrow> int \<Rightarrow> OrderItemData list \<Rightarrow> orderItem list" where
  "new_items first oid [] = []"
| "new_items first oid (x # xs) =
     \<lparr>orderItem_id = first, orderItem_orderId = oid, orderItem_furnitureId = data_furnitureId x,
      orderItem_quantity = data_quantity x, orderItem_unitPrice = data_unitPrice x\<rparr>
     # new_items (first + 1) oid xs"

text \<open>
  The id and quantity columns are \<^verbatim>\<open>INTEGER\<close>: a number outside the 32-bit
  range cannot be stored or looked up, and Prisma rejects a query that carries
  one with error P2020.
\<close>

definition in_int4 :: "int \<Rightarrow> bool" where
  "in_int4 i = (- 2147483648 \<le> i \<and> i \<le> 2147483647)"

text \<open>
  \<^verbatim>\<open>order.create\<close> with nested \<^verbatim>\<open>items: { create: ... }\<close>: one statement that
  inserts the order row and its item rows together, or nothing when it rejects.
  It rejects on an injected fault; on a value that does not fit its column (an
  id or quantity outside the 32-bit range, a total outside \<^verbatim>\<open>DECIMAL(10,2)\<close>);
  on a foreign key that points nowhere (\<^verbatim>\<open>Order_userId_fkey\<close>,
  \<^verbatim>\<open>OrderItem_furnitureId_fkey\<close>); and on two lines for the same furniture
  (\<^verbatim>\<open>OrderItem_orderId_furnitureId_key\<close>).
\<close>

definition order_create ::
  "faults \<Rightarrow> int option \<Rightarrow> rat \<Rightarrow> OrderStatus \<Rightarrow> OrderItemData list \<Rightarrow> db
   \<Rightarrow> (error + order \<times> orderItem list) \<times> db" where
  "order_create fl userId totalAmount status itemsData d =
     (if fl OrderCreate then (Inl DatabaseError, d)
      else if (\<exists>x \<in> set itemsData. \<not> in_int4 (data_furnitureId x) \<or> \<not> in_int4 (data_quantity x))
              \<or> 100000000 \<le> \<bar>totalAmount\<bar>
      then (Inl (PrismaKnownRequestError ''P2020''), d)
      else if (case userId of None \<Rightarrow> False | Some u \<Rightarrow> u \<notin> set (map user_id (users d)))
              \<or> (\<exists>x \<in> set itemsData.
                    data_furnitureId x \<notin> set (map furniture_id (furnitures d)))
      then (Inl (PrismaKnownRequestError ''P2003''), d)
      else if \<not> distinct (map data_furnitureId itemsData)
      then (Inl (PrismaKnownRequestError ''P2002''), d)
      else let newOrder = \<lparr>order_id = next_id (map order_id (orders d)), order_userId = userId,
                            order_totalAmount = totalAmount, order_status = status\<rparr>;
               newItems = new_items (next_id (map orderItem_id (orderItems d)))
                            (order_id newOrder) itemsData
           in (Inr (newOrder, newItems),
               d\<lparr>orders := orders d @ [newOrder], orderItems := orderItems d @ newItems\<rparr>))"

text \<open>\<^verbatim>\<open>cartItem.deleteMany({ where })\<close>: removes the matching rows and returns their count.\<close>

definition cartItem_deleteMany ::
  "faults \<Rightarrow> (cartItem \<Rightarrow> bool) \<Rightarrow> db \<Rightarrow> (error + nat) \<times> db" where
  "cartItem_deleteMany fl P d =
     (if fl CartItemDeleteMany then (Inl DatabaseError, d)
      else (Inr (length (filter P (cartItems d))),
            d\<lparr>cartItems := filter (\<lambda>ci. \<not> P ci) (cartItems d)\<rparr>))"

text \<open>
  \<^verbatim>\<open>prisma.$transaction(async (tx) => ...)\<close>: when the body throws, every write it
  made is rolled back.
\<close>

definition transaction :: "(db \<Rightarrow> (error + 'a) \<times> db) \<Rightarrow> db \<Rightarrow> (error + 'a) \<times> db" where
  "transaction body d =
     (case body d of (Inl e, d') \<Rightarrow> (Inl e, d) | (Inr r, d') \<Rightarrow> (Inr r, d'))"

text \<open>Decimal rendering of numbers and \<^verbatim>\<open>Array.prototype.join\<close>, for error messages.\<close>

fun show_nat :: "nat \<Rightarrow> string" where
  "show_nat n =
     (if n < 10 then [''0123456789'' ! n]
      else show_nat (n div 10) @ [''0123456789'' ! (n mod 10)])"

declare show_nat.simps [simp del]

definition show_int :: "int \<Rightarrow> string" where
  "show_int i = (if i < 0 then CHR ''-'' # show_nat (nat (- i)) else show_nat (nat i))"

fun join :: "string \<Rightarrow> string list \<Rightarrow> string" where
  "join sep [] = []"
| "join sep [x] = x"
| "join sep (x # y # ys) = x @ sep @ join sep (y # ys)"

text \<open>
  The existence check shared by \<^verbatim>\<open>createOrder\<close> and the direct branch of
  \<^verbatim>\<open>placeOrder\<close>: fetch the furniture rows whose id is among the requested ones
  and compare the two lengths; on a mismatch, the 404 names the requested ids
  that were not found. \<^verbatim>\<open>findMany({ where: { id: { in: ids } } })\<close> itself
  rejects with P2020 when a requested id is outside the 32-bit range.
\<close>

definition furniture_in :: "db \<Rightarrow> int list \<Rightarrow> furniture list" where
  "furniture_in d ids = filter (\<lambda>f. furniture_id f \<in> set ids) (furnitures d)"

definition findMany_furniture_in :: "db \<Rightarrow> int list \<Rightarrow> error + furniture list" where
  "findMany_furniture_in d ids =
     (if list_all in_int4 ids then Inr (furniture_in d ids)
      else Inl (PrismaKnownRequestError ''P2020''))"

definition missingIds :: "furniture list \<Rightarrow> int list \<Rightarrow> int list" where
  "missingIds furnitureList furnitureIds =
     (let foundIds = map furniture_id furnitureList
      in filter (\<lambda>i. i \<notin> set foundIds) furnitureIds)"

definition not_found_error :: "int list \<Rightarrow> error" where
  "not_found_error missing =
     ApiError 404 (''Furniture items not found: '' @ join '', '' (map show_int missing))"

text \<open>\<^verbatim>\<open>new Map(furnitureList.map(f => [f.id, f]))\<close>: a later entry replaces an earlier one.\<close>

definition furnitureMap :: "furniture list \<Rightarrow> (int \<rightharpoonup> furniture)" where
  "furnitureMap furnitureList = map_of (rev (map (\<lambda>f. (furniture_id f, f)) furnitureList))"

text \<open>
  The pricing loop of \<^verbatim>\<open>createOrder\<close>. \<^verbatim>\<open>furnitureMap.get(id)!\<close> followed by
  \<^verbatim>\<open>furniture.price\<close> throws a TypeError when the id is not in the map.
\<close>

fun createOrder_loop ::
  "(int \<rightharpoonup> furniture) \<Rightarrow> orderItemInput list \<Rightarrow> rat \<times> OrderItemData list
   \<Rightarrow> error + rat \<times> OrderItemData list" where
  "createOrder_loop m [] acc = Inr acc"
| "createOrder_loop m (item # rest) (totalAmount, orderItemsData) =
     (case m (item_furnitureId item) of
        None \<Rightarrow> Inl TypeError
      | Some furniture \<Rightarrow>
          let unitPrice = furniture_price furniture;
              itemTotal = unitPrice * of_int (item_quantity item)
          in createOrder_loop m rest
               (totalAmount + itemTotal,
                orderItemsData @ [\<lparr>data_furnitureId = item_furnitureId item,
                                   data_quantity = item_quantity item,
                                   data_unitPrice = unitPrice\<rparr>]))"

text \<open>
  \<^verbatim>\<open>createOrderSchema\<close>: at least one item, positive furniture ids and quantities.
  The guest e-mail format is taken as already checked.
\<close>

definition createOrderSchema :: "orderItemInput list \<Rightarrow> bool" where
  "createOrderSchema items =
     (1 \<le> length items \<and> list_all (\<lambda>x. 0 < item_furnitureId x \<and> 0 < item_quantity x) items)"

text \<open>The \<^verbatim>\<open>where: { cart: { userId } }\<close> filter on cart items.\<close>

definition in_cart_of :: "db \<Rightarrow> int option \<Rightarrow> cartItem \<Rightarrow> bool" where
  "in_cart_of d userId ci =
     (\<exists>c \<in> set (carts d). cart_id c = cartItem_cartId ci \<and> Some (cart_userId c) = userId)"

text \<open>
  \<^verbatim>\<open>createOrder\<close> (POST /orders). \<open>reqUser\<close> is \<^verbatim>\<open>req.user?.id\<close> as the optional
  authentication middleware left it.
\<close>

definition createOrder ::
  "faults \<Rightarrow> db \<Rightarrow> int option \<Rightarrow> orderItemInput list \<Rightarrow> guestInfo option
   \<Rightarrow> (error + order \<times> orderItem list) \<times> db" where
  "createOrder fl d reqUser items guest =
     (if \<not> createOrderSchema items then (Inl ZodError, d)
      else let finalUserId = reqUser in
        if \<not> truthy finalUserId \<and> guest = None
        then (Inl (ApiError 400 ''Either authentication or guest information must be provided''), d)
        else if truthy finalUserId \<and> find (\<lambda>u. Some (user_id u) = finalUserId) (users d) = None
        then (Inl (ApiError 404 ''User not found''), d)
        else let furnitureIds = map item_furnitureId items
          in (case findMany_furniture_in d furnitureIds of
                Inl e \<Rightarrow> (Inl e, d)
              | Inr furnitureList \<Rightarrow>
                  if length furnitureList \<noteq> length furnitureIds
                  then (Inl (not_found_error (missingIds furnitureList furnitureIds)), d)
                  else (case createOrder_loop (furnitureMap furnitureList) items (0, []) of
                          Inl e \<Rightarrow> (Inl e, d)
                        | Inr (totalAmount, orderItemsData) \<Rightarrow>
                            transaction (\<lambda>tx.
                              case order_create fl finalUserId totalAmount PENDING
                                     orderItemsData tx of
                                (Inl e, tx') \<Rightarrow> (Inl e, tx')
                              | (Inr newOrder, tx') \<Rightarrow>
                                  if truthy finalUserId
                                  then (case cartItem_deleteMany fl
                                               (in_cart_of tx' finalUserId) tx' of
                                          (Inl e, tx'') \<Rightarrow> (Inl e, tx'')
                                        | (Inr n, tx'') \<Rightarrow> (Inr newOrder, tx''))
                                  else (Inr newOrder, tx')) d)))"

text \<open>
  The pricing loop of the direct branch of \<^verbatim>\<open>placeOrder\<close>: an item whose
  furniture is not in the map is skipped (\<^verbatim>\<open>if (!furniture) continue\<close>).
\<close>

fun placeOrder_loop ::
  "(int \<rightharpoonup> furniture) \<Rightarrow> orderItemInput list \<Rightarrow> rat \<times> OrderItemData list
   \<Rightarrow> rat \<times> OrderItemData list" where
  "placeOrder_loop m [] acc = acc"
| "placeOrder_loop m (item # rest) (tot, itemsData) =
     (case m (item_furnitureId item) of
        None \<Rightarrow> placeOrder_loop m rest (tot, itemsData)
      | Some furniture \<Rightarrow>
          let unitPrice = furniture_price furniture
          in placeOrder_loop m rest
               (tot + unitPrice * of_int (item_quantity item),
                itemsData @ [\<lparr>data_furnitureId = item_furnitureId item,
                              data_quantity = item_quantity item,
                              data_unitPrice = unitPrice\<rparr>]))"

text \<open>
  The cart branch: \<^verbatim>\<open>cart.items.map(ci => ...)\<close> over the cart's items with their
  furniture included. The join cannot miss under the foreign key
  \<^verbatim>\<open>CartItem_furnitureId_fkey\<close>; a store that breaks it makes the read reject.
\<close>

fun cart_loop ::
  "db \<Rightarrow> cartItem list \<Rightarrow> rat \<times> OrderItemData list \<Rightarrow> error + rat \<times> OrderItemData list" where
  "cart_loop d [] acc = Inr acc"
| "cart_loop d (ci # rest) (tot, itemsData) =
     (case find (\<lambda>f. furniture_id f = cartItem_furnitureId ci) (furnitures d) of
        None \<Rightarrow> Inl DatabaseError
      | Some furniture \<Rightarrow>
          let unitPrice = furniture_price furniture
          in cart_loop d rest
               (tot + unitPrice * of_int (cartItem_quantity ci),
                itemsData @ [\<lparr>data_furnitureId = cartItem_furnitureId ci,
                              data_quantity = cartItem_quantity ci,
                              data_unitPrice = unitPrice\<rparr>]))"

text \<open>
  The first half of \<^verbatim>\<open>placeOrder\<close>: the items to order, their total, and whether
  the cart is to be cleared afterwards (\<^verbatim>\<open>shouldClearCart\<close>).
\<close>

definition placeOrder_items ::
  "db \<Rightarrow> int \<Rightarrow> orderItemInput list option \<Rightarrow> error + OrderItemData list \<times> rat \<times> bool" where
  "placeOrder_items d userId directItems =
     (if (case directItems of None \<Rightarrow> False | Some xs \<Rightarrow> 0 < length xs)
      then let furnitureIds = map item_furnitureId (the directItems)
           in (case findMany_furniture_in d furnitureIds of
                 Inl e \<Rightarrow> Inl e
               | Inr furnitureList \<Rightarrow>
                   if length furnitureList \<noteq> length furnitureIds
                   then Inl (not_found_error (missingIds furnitureList furnitureIds))
                   else (case placeOrder_loop (furnitureMap furnitureList)
                                (the directItems) (0, []) of
                           (tot, itemsData) \<Rightarrow> Inr (itemsData, tot, False)))
      else case find (\<lambda>c. cart_userId c = userId) (carts d) of
             None \<Rightarrow> Inl (ApiError 400 ''Cart is empty and no items provided'')
           | Some cart \<Rightarrow>
               let items = filter (\<lambda>ci. cartItem_cartId ci = cart_id cart) (cartItems d)
               in if length items = 0
                  then Inl (ApiError 400 ''Cart is empty and no items provided'')
                  else (case cart_loop d items (0, []) of
                          Inl e \<Rightarrow> Inl e
                        | Inr (tot, itemsData) \<Rightarrow> Inr (itemsData, tot, True)))"

text \<open>
  \<^verbatim>\<open>placeOrder\<close> (POST /checkout/place). The order is created by one statement
  and the cart is cleared by a later one; the handler opens no transaction.
\<close>

definition placeOrder ::
  "faults \<Rightarrow> db \<Rightarrow> int option \<Rightarrow> orderItemInput list option
   \<Rightarrow> (error + order \<times> orderItem list) \<times> db" where
  "placeOrder fl d reqUser directItems =
     (if \<not> truthy reqUser then (Inl (ApiError 401 ''Authentication required for checkout''), d)
      else let userId = the reqUser in
        case placeOrder_items d userId directItems of
          Inl e \<Rightarrow> (Inl e, d)
        | Inr (itemsData, tot, shouldClearCart) \<Rightarrow>
            if length itemsData = 0 then (Inl (ApiError 400 ''No items to order''), d)
            else (case order_create fl (Some userId) tot COMPLETED itemsData d of
                    (Inl e, d') \<Rightarrow> (Inl e, d')
                  | (Inr ord, d') \<Rightarrow>
                      if shouldClearCart
                      then (case find (\<lambda>c. cart_userId c = userId) (carts d') of
                              None \<Rightarrow> (Inr ord, d')
                            | Some cart \<Rightarrow>
                                (case cartItem_deleteMany fl
                                        (\<lambda>ci. cartItem_cartId ci = cart_id cart) d' of
                                   (Inl e, d'') \<Rightarrow> (Inl e, d'')
                                 | (Inr n, d'') \<Rightarrow> (Inr ord, d'')))
                      else (Inr ord, d')))"

section \<open>Predicates used in the statements\<close>

text \<open>The amount of one order line, and the sum over the lines of an order.\<close>

definition line_total :: "orderItem \<Rightarrow> rat" where
  "line_total oi = orderItem_unitPrice oi * of_int (orderItem_quantity oi)"

definition lines_total :: "orderItem list \<Rightarrow> rat" where
  "lines_total ois = sum_list (map line_total ois)"

text \<open>
  An order line carries the price snapshot of its furniture: the store \<open>d\<close> the
  request ran against holds a furniture row with the line's furniture id and
  the line's unit price.
\<close>

definition snapshot_of :: "db \<Rightarrow> orderItem \<Rightarrow> bool" where
  "snapshot_of d oi =
     (\<exists>f \<in> set (furnitures d).
        furniture_id f = orderItem_furnitureId oi \<and> orderItem_unitPrice oi = furniture_price f)"

text \<open>What a created order must look like: the total is the sum of its lines, every
  line belongs to it and carries a price snapshot, and exactly these rows were
  appended to the store.\<close>

definition consistent_order :: "db \<Rightarrow> db \<Rightarrow> order \<Rightarrow> orderItem list \<Rightarrow> bool" where
  "consistent_order d d' newOrder newItems =
     (order_totalAmount newOrder = lines_total newItems
      \<and> list_all (\<lambda>oi. orderItem_orderId oi = order_id newOrder \<and> snapshot_of d oi) newItems
      \<and> orders d' = orders d @ [newOrder]
      \<and> orderItems d' = orderItems d @ newItems)"

text \<open>The lines of an order are the requested items, in order, with their quantities.\<close>

definition lines_match :: "orderItemInput list \<Rightarrow> orderItem list \<Rightarrow> bool" where
  "lines_match items newItems =
     (map orderItem_furnitureId newItems = map item_furnitureId items
      \<and> map orderItem_quantity newItems = map item_quantity items)"

text \<open>The ids of the furniture table, and the requested ids that are not among them.\<close>

definition furniture_ids :: "db \<Rightarrow> int list" where
  "furniture_ids d = map furniture_id (furnitures d)"



section \<open>JavaScript numbers and query parsing\<close>

text \<open>
  The numbers the recommendation handlers compute with: an integer or
  \<^verbatim>\<open>NaN\<close>. Every comparison with \<^verbatim>\<open>NaN\<close> is false and arithmetic on it gives
  \<^verbatim>\<open>NaN\<close>. Integers stand for themselves (no rounding to doubles).
\<close>

datatype jsnum = NaN | Num int

fun js_lt :: "jsnum \<Rightarrow> jsnum \<Rightarrow> bool" where
  "js_lt (Num a) (Num b) = (a < b)"
| "js_lt a b = False"

fun js_gt :: "jsnum \<Rightarrow> jsnum \<Rightarrow> bool" where
  "js_gt (Num a) (Num b) = (a > b)"
| "js_gt a b = False"

fun js_sub :: "jsnum \<Rightarrow> jsnum \<Rightarrow> jsnum" where
  "js_sub (Num a) (Num b) = Num (a - b)"
| "js_sub a b = NaN"

text \<open>
  \<^verbatim>\<open>xs.slice(0, n)\<close>: \<^verbatim>\<open>NaN\<close> counts as 0 and a negative end counts from the
  end of the array.
\<close>

fun js_slice0 :: "'a list \<Rightarrow> jsnum \<Rightarrow> 'a list" where
  "js_slice0 xs NaN = []"
| "js_slice0 xs (Num n) = (if 0 \<le> n then take (nat n) xs else take (length xs - nat (- n)) xs)"

text \<open>
  The ids that \<^verbatim>\<open>excludeId ? [..., excludeId] : ...\<close> adds to an exclusion list:
  \<^verbatim>\<open>undefined\<close>, \<^verbatim>\<open>NaN\<close> and 0 are falsy and add nothing.
\<close>

fun excluded :: "jsnum option \<Rightarrow> int list" where
  "excluded (Some (Num n)) = (if n \<noteq> 0 then [n] else [])"
| "excluded other = []"

text \<open>
  \<^verbatim>\<open>parseInt(s)\<close> without a radix: skip leading white space, read an optional
  sign, switch to radix 16 after \<^verbatim>\<open>0x\<close> or \<^verbatim>\<open>0X\<close>, read the longest run of
  digits; no digit gives \<^verbatim>\<open>NaN\<close>. White space is the ASCII part of what
  JavaScript skips.
\<close>

definition is_whitespace :: "char \<Rightarrow> bool" where
  "is_whitespace c = (c \<in> set [CHR '' '', CHR 0x09, CHR 0x0A, CHR 0x0B, CHR 0x0C, CHR 0x0D])"

definition digit_value :: "char \<Rightarrow> nat option" where
  "digit_value c =
     (let n = (of_char c :: nat)
      in if 48 \<le> n \<and> n \<le> 57 then Some (n - 48)
         else if 97 \<le> n \<and> n \<le> 122 then Some (n - 87)
         else if 65 \<le> n \<and> n \<le> 90 then Some (n - 55)
         else None)"

definition is_digit :: "nat \<Rightarrow> char \<Rightarrow> bool" where
  "is_digit radix c = (case digit_value c of None \<Rightarrow> False | Some v \<Rightarrow> v < radix)"

definition digits_value :: "nat \<Rightarrow> string \<Rightarrow> int" where
  "digits_value radix ds = int (foldl (\<lambda>a c. a * radix + the (digit_value c)) 0 ds)"

definition parseInt :: "string \<Rightarrow> jsnum" where
  "parseInt s =
     (let s1 = dropWhile is_whitespace s;
          negative = (s1 \<noteq> [] \<and> hd s1 = CHR ''-'');
          s2 = (if s1 \<noteq> [] \<and> hd s1 \<in> set [CHR ''+'', CHR ''-''] then tl s1 else s1);
          hex = (take 2 s2 = ''0x'' \<or> take 2 s2 = ''0X'');
          radix = (if hex then 16 else 10);
          s3 = (if hex then drop 2 s2 else s2);
          ds = takeWhile (is_digit radix) s3
      in if ds = [] then NaN
         else Num ((if negative then - 1 else 1) * digits_value radix ds))"

text \<open>
  \<^verbatim>\<open>recommendationQuerySchema\<close>: an absent or empty \<^verbatim>\<open>limit\<close> becomes 10, an
  absent or empty \<^verbatim>\<open>excludeId\<close> stays undefined, anything else goes through
  \<^verbatim>\<open>parseInt\<close>.
\<close>

record recommendationQuery =
  query_limit :: "string option"
  query_excludeId :: "string option"

definition recommendationQuerySchema :: "recommendationQuery \<Rightarrow> jsnum \<times> jsnum option" where
  "recommendationQuerySchema q =
     ((case query_limit q of None \<Rightarrow> Num 10 | Some val \<Rightarrow> if val \<noteq> [] then parseInt val else Num 10),
      (case query_excludeId q of None \<Rightarrow> None | Some val \<Rightarrow> if val \<noteq> [] then Some (parseInt val) else None))"

text \<open>
  \<^verbatim>\<open>userIdSchema\<close> and \<^verbatim>\<open>categoryIdSchema\<close>: the transform throws a plain
  \<^verbatim>\<open>Error\<close> on \<^verbatim>\<open>NaN\<close>.
\<close>

definition idSchema :: "string \<Rightarrow> error + int" where
  "idSchema val = (case parseInt val of NaN \<Rightarrow> Inl (JsError ''Invalid ID'') | Num n \<Rightarrow> Inr n)"

section \<open>Recommendations\<close>

text \<open>
  A furniture row as the recommendation queries fetch it: the row itself with
  its reviews' ratings included (\<^verbatim>\<open>reviews: { select: { rating: true } }\<close>) and,
  for the popularity query, the count of its order items.
\<close>

record fetched =
  fetched_row :: furniture
  fetched_reviews :: "int list"
  fetched_count_orderItems :: "nat option"

text \<open>
  A recommendation as it is serialised. \<^verbatim>\<open>reviews: undefined\<close> (and
  \<^verbatim>\<open>_count: undefined\<close>) drop the field from the JSON payload: \<open>None\<close>.
\<close>

record recommendation =
  rec_row :: furniture
  averageRating :: "rat option"
  reviewCount :: nat
  rec_reviews :: "int list option"
  orderCount :: "nat option"
  rec_count :: "nat option"

definition rec_id :: "recommendation \<Rightarrow> int" where
  "rec_id r = furniture_id (rec_row r)"

record recommendationResponse =
  recommendations :: "recommendation list"
  algorithm :: string

definition ratings_of :: "db \<Rightarrow> int \<Rightarrow> int list" where
  "ratings_of d fid = map review_rating (filter (\<lambda>r. review_furnitureId r = fid) (reviews d))"

definition count_orderItems :: "db \<Rightarrow> int \<Rightarrow> nat" where
  "count_orderItems d fid = length (filter (\<lambda>oi. orderItem_furnitureId oi = fid) (orderItems d))"

definition include_reviews :: "db \<Rightarrow> furniture \<Rightarrow> fetched" where
  "include_reviews d f =
     \<lparr>fetched_row = f, fetched_reviews = ratings_of d (furniture_id f),
      fetched_count_orderItems = None\<rparr>"

definition include_reviews_count :: "db \<Rightarrow> furniture \<Rightarrow> fetched" where
  "include_reviews_count d f =
     \<lparr>fetched_row = f, fetched_reviews = ratings_of d (furniture_id f),
      fetched_count_orderItems = Some (count_orderItems d (furniture_id f))\<rparr>"

text \<open>
  The mapping that every recommendation query ends with:
  \<^verbatim>\<open>reviews.reduce((sum, review) => sum + review.rating, 0) / reviews.length\<close>
  for a non-empty review list and \<^verbatim>\<open>null\<close> otherwise.
\<close>

definition withRatings :: "fetched \<Rightarrow> recommendation" where
  "withRatings item =
     \<lparr>rec_row = fetched_row item,
      averageRating = (if length (fetched_reviews item) > 0
                       then Some (of_int (foldl (+) 0 (fetched_reviews item))
                                  / of_nat (length (fetched_reviews item)))
                       else None),
      reviewCount = length (fetched_reviews item),
      rec_reviews = None,
      orderCount = None,
      rec_count = fetched_count_orderItems item\<rparr>"

text \<open>The popularity variant also copies the order count and drops \<^verbatim>\<open>_count\<close>.\<close>

definition withRatingsAndOrderCount :: "fetched \<Rightarrow> recommendation" where
  "withRatingsAndOrderCount item =
     (withRatings item)\<lparr>orderCount := fetched_count_orderItems item, rec_count := None\<rparr>"

text \<open>
  \<^verbatim>\<open>orderBy: [{ reviews: { _count: 'desc' } }, { createdAt: 'desc' }]\<close> as two
  stable sorts, the secondary key first; rows equal in both keys keep their
  storage order. The popularity query sorts by the order-item count before these.
\<close>

definition orderBy_reviews_createdAt :: "db \<Rightarrow> furniture list \<Rightarrow> furniture list" where
  "orderBy_reviews_createdAt d fs =
     sort_key (\<lambda>f. - int (length (ratings_of d (furniture_id f))))
       (sort_key (\<lambda>f. - furniture_createdAt f) fs)"

definition orderBy_orderItems :: "db \<Rightarrow> furniture list \<Rightarrow> furniture list" where
  "orderBy_orderItems d fs =
     sort_key (\<lambda>f. - int (count_orderItems d (furniture_id f))) (orderBy_reviews_createdAt d fs)"

text \<open>
  \<^verbatim>\<open>take: n\<close>. The handlers only reach it with a positive integer when the
  limit is one; a negative \<open>n\<close> takes from the end. The Prisma client is taken to
  reject a \<^verbatim>\<open>take\<close> that is \<^verbatim>\<open>NaN\<close> with its validation error.
\<close>

fun prisma_take :: "jsnum \<Rightarrow> 'a list \<Rightarrow> error + 'a list" where
  "prisma_take NaN xs = Inl PrismaValidationError"
| "prisma_take (Num n) xs = Inr (if 0 \<le> n then take (nat n) xs else drop (length xs - nat (- n)) xs)"

text \<open>
  The order items of a user's COMPLETED orders, each with the category of its
  furniture (\<^verbatim>\<open>include: { furniture: { select: { categoryId: true } } }\<close>).
  Under the foreign key \<^verbatim>\<open>OrderItem_furnitureId_fkey\<close> every order item has
  its furniture row; an order item without one is left out of the join.
\<close>

definition in_completed_order_of :: "db \<Rightarrow> int \<Rightarrow> orderItem \<Rightarrow> bool" where
  "in_completed_order_of d userId oi =
     (\<exists>x \<in> set (orders d). order_id x = orderItem_orderId oi
          \<and> order_userId x = Some userId \<and> order_status x = COMPLETED)"

definition findMany_userOrders :: "db \<Rightarrow> int \<Rightarrow> (orderItem \<times> int) list" where
  "findMany_userOrders d userId =
     List.map_filter
       (\<lambda>oi. if in_completed_order_of d userId oi
             then map_option (\<lambda>f. (oi, furniture_categoryId f))
                    (find (\<lambda>f. furniture_id f = orderItem_furnitureId oi) (furnitures d))
             else None)
       (orderItems d)"

text \<open>\<^verbatim>\<open>[...new Set(xs)]\<close>: the distinct elements in order of first occurrence.\<close>

definition js_Set :: "'a list \<Rightarrow> 'a list" where
  "js_Set xs = rev (remdups (rev xs))"

definition getCollaborativeRecommendations ::
  "db \<Rightarrow> int \<Rightarrow> jsnum \<Rightarrow> jsnum option \<Rightarrow> error + recommendation list" where
  "getCollaborativeRecommendations d userId limit excludeId =
     (let userOrders = findMany_userOrders d userId
      in if length userOrders = 0 then Inr []
         else let categoryIds = js_Set (map snd userOrders);
                  purchasedFurnitureIds = map (\<lambda>x. orderItem_furnitureId (fst x)) userOrders;
                  excludeIds = purchasedFurnitureIds @ excluded excludeId
              in map_sum id (map (withRatings \<circ> include_reviews d))
                   (prisma_take limit
                      (orderBy_reviews_createdAt d
                         (filter (\<lambda>f. furniture_categoryId f \<in> set categoryIds
                                      \<and> furniture_id f \<notin> set excludeIds)
                            (furnitures d)))))"

text \<open>
  \<^verbatim>\<open>categoryCount\<close>: a \<^verbatim>\<open>Map\<close> from category id to number of purchases, in order
  of first insertion; \<^verbatim>\<open>sort((a, b) => b[1] - a[1])\<close> is a stable sort by
  descending count.
\<close>

fun categoryCount_set :: "(int \<times> nat) list \<Rightarrow> int \<Rightarrow> (int \<times> nat) list" where
  "categoryCount_set [] c = [(c, 1)]"
| "categoryCount_set ((k, n) # m) c =
     (if k = c then (k, n + 1) # m else (k, n) # categoryCount_set m c)"

definition getCategoryBasedRecommendations ::
  "db \<Rightarrow> (orderItem \<times> int) list \<Rightarrow> jsnum \<Rightarrow> jsnum option \<Rightarrow> int list
   \<Rightarrow> error + recommendation list" where
  "getCategoryBasedRecommendations d userOrders limit excludeId excludeIds =
     (let categoryCount = foldl categoryCount_set [] (map snd userOrders);
          preferredCategories = map fst (sort_key (\<lambda>entry. - int (snd entry)) categoryCount)
      in if length preferredCategories = 0 then Inr []
         else let notIn = excludeIds @ excluded excludeId
              in map_sum id (map (withRatings \<circ> include_reviews d))
                   (prisma_take limit
                      (orderBy_reviews_createdAt d
                         (filter (\<lambda>f. furniture_categoryId f \<in> set preferredCategories
                                      \<and> furniture_id f \<notin> set notIn)
                            (furnitures d)))))"

definition getPopularRecommendationsHelper ::
  "db \<Rightarrow> jsnum \<Rightarrow> jsnum option \<Rightarrow> int list \<Rightarrow> error + recommendation list" where
  "getPopularRecommendationsHelper d limit excludeId excludeIds =
     (let excludeList = excludeIds @ excluded excludeId
      in map_sum id (map (withRatingsAndOrderCount \<circ> include_reviews_count d))
           (prisma_take limit
              (orderBy_orderItems d
                 (filter (\<lambda>f. furniture_id f \<notin> set excludeList) (furnitures d)))))"

text \<open>
  The lists that \<^verbatim>\<open>getUserRecommendations\<close> appends to \<^verbatim>\<open>recommendations\<close>,
  in order. \<open>personal_tiers\<close> is the block under
  \<^verbatim>\<open>if (userOrders.length > 0)\<close>: the collaborative tier and, when that is
  short of the limit, the category-based tier. \<open>hybrid_tiers\<close> adds the
  popularity tier when the two are still short. A tier that is not run
  contributes nothing.
\<close>

definition personal_tiers ::
  "db \<Rightarrow> int \<Rightarrow> jsnum \<Rightarrow> jsnum option \<Rightarrow> error + recommendation list \<times> recommendation list" where
  "personal_tiers d userId limit excludeId =
     (let userOrders = findMany_userOrders d userId
      in if length userOrders > 0
         then (case getCollaborativeRecommendations d userId limit excludeId of
                 Inl e \<Rightarrow> Inl e
               | Inr collab \<Rightarrow>
                   if js_lt (Num (int (length collab))) limit
                   then (case getCategoryBasedRecommendations d userOrders
                                (js_sub limit (Num (int (length collab)))) excludeId
                                (map rec_id collab) of
                           Inl e \<Rightarrow> Inl e
                         | Inr categoryRecommendations \<Rightarrow> Inr (collab, categoryRecommendations))
                   else Inr (collab, []))
         else Inr ([], []))"

definition hybrid_tiers ::
  "db \<Rightarrow> int \<Rightarrow> jsnum \<Rightarrow> jsnum option
   \<Rightarrow> error + recommendation list \<times> recommendation list \<times> recommendation list" where
  "hybrid_tiers d userId limit excludeId =
     (case personal_tiers d userId limit excludeId of
        Inl e \<Rightarrow> Inl e
      | Inr (collab, cat) \<Rightarrow>
          if js_lt (Num (int (length (collab @ cat)))) limit
          then (case getPopularRecommendationsHelper d
                       (js_sub limit (Num (int (length (collab @ cat))))) excludeId
                       (map rec_id (collab @ cat)) of
                  Inl e \<Rightarrow> Inl e
                | Inr popularRecommendations \<Rightarrow> Inr (collab, cat, popularRecommendations))
          else Inr (collab, cat, []))"

text \<open>
  \<^verbatim>\<open>getUserRecommendations\<close> (GET /recommendations/user/:userId), from the raw
  path parameter and query strings.
\<close>

definition getUserRecommendations ::
  "db \<Rightarrow> string \<Rightarrow> recommendationQuery \<Rightarrow> error + recommendationResponse" where
  "getUserRecommendations d userIdParam q =
     (case idSchema userIdParam of
        Inl e \<Rightarrow> Inl e
      | Inr userId \<Rightarrow>
          (case recommendationQuerySchema q of (limit, excludeId) \<Rightarrow>
             if js_lt limit (Num 1) \<or> js_gt limit (Num 50)
             then Inl (ApiError 400 ''Limit must be between 1 and 50'')
             else if find (\<lambda>u. user_id u = userId) (users d) = None
             then Inl (ApiError 404 ''User not found'')
             else (case hybrid_tiers d userId limit excludeId of
                     Inl e \<Rightarrow> Inl e
                   | Inr (collab, cat, popular) \<Rightarrow>
                       Inr \<lparr>recommendations = js_slice0 (collab @ cat @ popular) limit,
                            algorithm = (if length (findMany_userOrders d userId) > 0
                                         then ''hybrid'' else ''popular'')\<rparr>)))"

text \<open>\<^verbatim>\<open>getPopularItems\<close> (GET /recommendations/popular).\<close>

definition getPopularItems :: "db \<Rightarrow> recommendationQuery \<Rightarrow> error + recommendationResponse" where
  "getPopularItems d q =
     (case recommendationQuerySchema q of (limit, excludeId) \<Rightarrow>
        if js_lt limit (Num 1) \<or> js_gt limit (Num 50)
        then Inl (ApiError 400 ''Limit must be between 1 and 50'')
        else (case getPopularRecommendationsHelper d limit excludeId [] of
                Inl e \<Rightarrow> Inl e
              | Inr rs \<Rightarrow> Inr \<lparr>recommendations = rs, algorithm = ''popular''\<rparr>))"

text \<open>\<^verbatim>\<open>getCategoryRecommendations\<close> (GET /recommendations/category/:categoryId).\<close>

definition getCategoryRecommendations ::
  "db \<Rightarrow> string \<Rightarrow> recommendationQuery \<Rightarrow> error + recommendationResponse" where
  "getCategoryRecommendations d categoryIdParam q =
     (case idSchema categoryIdParam of
        Inl e \<Rightarrow> Inl e
      | Inr categoryId \<Rightarrow>
          (case recommendationQuerySchema q of (limit, excludeId) \<Rightarrow>
             if js_lt limit (Num 1) \<or> js_gt limit (Num 50)
             then Inl (ApiError 400 ''Limit must be between 1 and 50'')
             else if find (\<lambda>c. category_id c = categoryId) (categories d) = None
             then Inl (ApiError 404 ''Category not found'')
             else (case prisma_take limit
                          (orderBy_reviews_createdAt d
                             (filter (\<lambda>f. furniture_categoryId f = categoryId
                                          \<and> furniture_id f \<notin> set (excluded excludeId))
                                (furnitures d))) of
                     Inl e \<Rightarrow> Inl e
                   | Inr rs \<Rightarrow>
                       Inr \<lparr>recommendations = map (withRatings \<circ> include_reviews d) rs,
                            algorithm = ''category-based''\<rparr>)))"

text \<open>
  \<^verbatim>\<open>getSimilarRecommendations\<close> (GET /recommendations/similar/:furnitureId).
  The band is \<^verbatim>\<open>price - price * 0.3\<close> to \<^verbatim>\<open>price + price * 0.3\<close>, with 0.3 read
  as the rational 3/10.
\<close>

definition getSimilarRecommendations ::
  "db \<Rightarrow> string \<Rightarrow> recommendationQuery \<Rightarrow> error + recommendationResponse" where
  "getSimilarRecommendations d furnitureIdParam q =
     (case parseInt furnitureIdParam of
        NaN \<Rightarrow> Inl (ApiError 400 ''Invalid furniture ID'')
      | Num furnitureId \<Rightarrow>
          (case recommendationQuerySchema q of (limit, excludeId) \<Rightarrow>
             if js_lt limit (Num 1) \<or> js_gt limit (Num 50)
             then Inl (ApiError 400 ''Limit must be between 1 and 50'')
             else (case find (\<lambda>f. furniture_id f = furnitureId) (furnitures d) of
                     None \<Rightarrow> Inl (ApiError 404 ''Furniture not found'')
                   | Some currentFurniture \<Rightarrow>
                       let priceRange = furniture_price currentFurniture * (3 / 10);
                           minPrice = furniture_price currentFurniture - priceRange;
                           maxPrice = furniture_price currentFurniture + priceRange
                       in (case prisma_take limit
                                  (orderBy_reviews_createdAt d
                                     (filter (\<lambda>f. furniture_categoryId f
                                                     = furniture_categoryId currentFurniture
                                                  \<and> furniture_id f \<noteq> furnitureId
                                                  \<and> minPrice \<le> furniture_price f
                                                  \<and> furniture_price f \<le> maxPrice)
                                        (furnitures d))) of
                             Inl e \<Rightarrow> Inl e
                           | Inr rs \<Rightarrow>
                               Inr \<lparr>recommendations = map (withRatings \<circ> include_reviews d) rs,
                                    algorithm = ''content-based''\<rparr>))))"


section \<open>Predicates used in the statements about recommendations\<close>

text \<open>The furniture ids of the order items that lie in COMPLETED orders of a user.\<close>

definition purchased_ids :: "db \<Rightarrow> int \<Rightarrow> int list" where
  "purchased_ids d userId =
     map orderItem_furnitureId (filter (in_completed_order_of d userId) (orderItems d))"

text \<open>The arithmetic mean of a list of ratings.\<close>

definition mean :: "int list \<Rightarrow> rat" where
  "mean rs = of_int (sum_list rs) / of_nat (length rs)"

text \<open>
  A serialised recommendation carries the aggregate of the reviews that the
  store holds for its furniture: the mean rating, or null exactly when there is
  no review; the number of reviews; and no review collection.
\<close>

definition rated :: "db \<Rightarrow> recommendation \<Rightarrow> bool" where
  "rated d r =
     (let rs = ratings_of d (rec_id r)
      in averageRating r = (if rs = [] then None else Some (mean rs))
         \<and> (averageRating r = None \<longleftrightarrow> length rs = 0)
         \<and> reviewCount r = length rs
         \<and> rec_reviews r = None)"

text \<open>
  A furniture row lies in the symmetric 30 percent band around a reference
  price.
\<close>

definition in_band :: "rat \<Rightarrow> rat \<Rightarrow> bool" where
  "in_band reference p = (reference - reference * (3 / 10) \<le> p \<and> p \<le> reference + reference * (3 / 10))"


section \<open>Reviews\<close>

text \<open>
  \<^verbatim>\<open>createReviewSchema\<close>: positive ids, a rating from 1 to 5 and an optional
  comment of at most 1000 characters.
\<close>

definition createReviewSchema :: "int \<Rightarrow> int \<Rightarrow> int \<Rightarrow> string option \<Rightarrow> bool" where
  "createReviewSchema furnitureId userId rating comment =
     (0 < furnitureId \<and> 0 < userId \<and> 1 \<le> rating \<and> rating \<le> 5
      \<and> (case comment of None \<Rightarrow> True | Some c \<Rightarrow> length c \<le> 1000))"

text \<open>
  \<^verbatim>\<open>createReview\<close> (POST /reviews): the user and the furniture must exist, the
  user must have an order item for the furniture in a COMPLETED order, and no
  review of this user for this furniture may exist yet.
\<close>

definition createReview ::
  "db \<Rightarrow> int \<Rightarrow> int \<Rightarrow> int \<Rightarrow> string option \<Rightarrow> (error + review) \<times> db" where
  "createReview d furnitureId userId rating comment =
     (if \<not> createReviewSchema furnitureId userId rating comment then (Inl ZodError, d)
      else if find (\<lambda>u. user_id u = userId) (users d) = None
      then (Inl (ApiError 404 ''User not found''), d)
      else if find (\<lambda>f. furniture_id f = furnitureId) (furnitures d) = None
      then (Inl (ApiError 404 ''Furniture not found''), d)
      else let hasPurchased =
                 find (\<lambda>oi. orderItem_furnitureId oi = furnitureId
                            \<and> in_completed_order_of d userId oi) (orderItems d)
        in if hasPurchased = None
           then (Inl (ApiError 403 ''You can only review furniture items you have purchased''), d)
           else let existingReview =
                      find (\<lambda>r. review_userId r = userId \<and> review_furnitureId r = furnitureId)
                        (reviews d)
             in if existingReview \<noteq> None
                then (Inl (ApiError 400 ''You have already reviewed this furniture item''), d)
                else let newReview = \<lparr>review_id = next_id (map review_id (reviews d)),
                                      review_userId = userId, review_furnitureId = furnitureId,
                                      review_rating = rating, review_comment = comment\<rparr>
                     in (Inr newReview, d\<lparr>reviews := reviews d @ [newReview]\<rparr>))"

text \<open>
  The user has an order item for the furniture in a COMPLETED order; and the
  review table holds at most one review per pair of user and furniture.
\<close>

definition has_purchased :: "db \<Rightarrow> int \<Rightarrow> int \<Rightarrow> bool" where
  "has_purchased d userId furnitureId =
     (\<exists>oi \<in> set (orderItems d).
        orderItem_furnitureId oi = furnitureId \<and> in_completed_order_of d userId oi)"

definition review_pairs :: "db \<Rightarrow> (int \<times> int) list" where
  "review_pairs d = map (\<lambda>r. (review_userId r, review_furnitureId r)) (reviews d)"


section \<open>Furniture list and detail\<close>

text \<open>
  The three furniture-returning handlers of \<^verbatim>\<open>furnitureController\<close>.

  \<^verbatim>\<open>listFurnitures\<close> (GET /furnitures) maps the page \<open>items\<close> that its
  \<^verbatim>\<open>findMany\<close> selected with the same function as the recommendation queries.
  The page is a parameter here: the search, category, price, sort and paging
  clauses that select it read columns that are not part of the data model.
\<close>

definition listFurnitures :: "db \<Rightarrow> furniture list \<Rightarrow> recommendation list" where
  "listFurnitures d items = map (withRatings \<circ> include_reviews d) items"

text \<open>
  \<^verbatim>\<open>getRecommendations\<close> (GET /furnitures/recommendations/:id), from the raw
  path parameter as \<^verbatim>\<open>furnitureIdSchema\<close> parses it: up to four other
  furniture rows of the same category, in storage order.
\<close>

definition getRecommendations :: "db \<Rightarrow> string \<Rightarrow> error + recommendation list" where
  "getRecommendations d idParam =
     (case idSchema idParam of
        Inl e \<Rightarrow> Inl e
      | Inr fid \<Rightarrow>
          (case find (\<lambda>f. furniture_id f = fid) (furnitures d) of
             None \<Rightarrow> Inl (ApiError 404 ''Furniture not found'')
           | Some current \<Rightarrow>
               Inr (map (withRatings \<circ> include_reviews d)
                      (take 4 (filter (\<lambda>f. furniture_categoryId f = furniture_categoryId current
                                          \<and> furniture_id f \<noteq> fid)
                                 (furnitures d))))))"

text \<open>
  \<^verbatim>\<open>getFurniture\<close> (GET /furnitures/:id), with the id that the
  \<^verbatim>\<open>idParamSchema\<close> middleware coerced to a number. The reviews are included in
  full, newest first (the review table is in creation order), and the answer is
  \<^verbatim>\<open>{...item, averageRating, reviewCount}\<close>: the reviews stay in the payload.
\<close>

record furnitureDetail =
  detail_row :: furniture
  detail_reviews :: "review list"
  detail_averageRating :: "rat option"
  detail_reviewCount :: nat

definition getFurniture :: "db \<Rightarrow> int \<Rightarrow> error + furnitureDetail" where
  "getFurniture d fid =
     (case find (\<lambda>f. furniture_id f = fid) (furnitures d) of
        None \<Rightarrow> Inl (ApiError 404 ''Furniture not found'')
      | Some item \<Rightarrow>
          let item_reviews = rev (filter (\<lambda>r. review_furnitureId r = fid) (reviews d));
              averageRating =
                (if length item_reviews > 0
                 then Some (of_int (foldl (\<lambda>sum review. sum + review_rating review) 0 item_reviews)
                            / of_nat (length item_reviews))
                 else None)
          in Inr \<lparr>detail_row = item, detail_reviews = item_reviews,
                  detail_averageRating = averageRating,
                  detail_reviewCount = length item_reviews\<rparr>)"

text \<open>
  A detail answer carries the same aggregate as a list item, and the review
  rows of its furniture.
\<close>

definition detail_rated :: "db \<Rightarrow> furnitureDetail \<Rightarrow> bool" where
  "detail_rated d x =
     (let rs = ratings_of d (furniture_id (detail_row x))
      in detail_averageRating x = (if rs = [] then None else Some (mean rs))
         \<and> (detail_averageRating x = None \<longleftrightarrow> length rs = 0)
         \<and> detail_reviewCount x = length rs
         \<and> mset (detail_reviews x)
             = mset (filter (\<lambda>r. review_furnitureId r = furniture_id (detail_row x)) (reviews d)))"


section \<open>Example store\<close>

definition order1 :: order where
  "order1 = \<lparr>order_id = 1, order_userId = Some 1, order_totalAmount = 100, order_status = PENDING\<rparr>"

definition order2 :: order where
  "order2 = \<lparr>order_id = 2, order_userId = Some 1, order_totalAmount = 40, order_status = COMPLETED\<rparr>"

definition db_orders :: db where
  "db_orders = \<lparr>users = [\<lparr>user_id = 1\<rparr>], categories = [], furnitures = [], reviews = [],
                 carts = [], cartItems = [], orders = [order1, order2], orderItems = []\<rparr>"

definition chair :: furniture where
  "chair = \<lparr>furniture_id = 1, furniture_categoryId = 1, furniture_price = 50, furniture_createdAt = 10\<rparr>"

definition desk :: furniture where
  "desk = \<lparr>furniture_id = 2, furniture_categoryId = 1, furniture_price = 120, furniture_createdAt = 20\<rparr>"

definition db_shop :: db where
  "db_shop = \<lparr>users = [\<lparr>user_id = 1\<rparr>, \<lparr>user_id = 2\<rparr>], categories = [\<lparr>category_id = 1\<rparr>],
               furnitures = [chair, desk], reviews = [],
               carts = [\<lparr>cart_id = 1, cart_userId = 1\<rparr>, \<lparr>cart_id = 2, cart_userId = 2\<rparr>],
               cartItems = [\<lparr>cartItem_id = 1, cartItem_cartId = 1, cartItem_furnitureId = 1, cartItem_quantity = 2\<rparr>,
                            \<lparr>cartItem_id = 2, cartItem_cartId = 2, cartItem_furnitureId = 2, cartItem_quantity = 1\<rparr>],
               orders = [], orderItems = []\<rparr>"

definition two_chairs_one_desk :: "orderItemInput list" where
  "two_chairs_one_desk = [\<lparr>item_furnitureId = 1, item_quantity = 2\<rparr>,
                          \<lparr>item_furnitureId = 2, item_quantity = 1\<rparr>]"

definition chair_and_unknown :: "orderItemInput list" where
  "chair_and_unknown = [\<lparr>item_furnitureId = 1, item_quantity = 1\<rparr>,
                        \<lparr>item_furnitureId = 9, item_quantity = 1\<rparr>]"

definition chair_and_huge_id :: "orderItemInput list" where
  "chair_and_huge_id = [\<lparr>item_furnitureId = 1, item_quantity = 1\<rparr>,
                        \<lparr>item_furnitureId = 99999999999, item_quantity = 1\<rparr>]"

definition first_order :: "OrderStatus \<Rightarrow> rat \<Rightarrow> order" where
  "first_order st amount =
     \<lparr>order_id = 1, order_userId = Some 1, order_totalAmount = amount, order_status = st\<rparr>"

definition line :: "int \<Rightarrow> int \<Rightarrow> int \<Rightarrow> rat \<Rightarrow> orderItem" where
  "line i f q p = \<lparr>orderItem_id = i, orderItem_orderId = 1, orderItem_furnitureId = f,
                   orderItem_quantity = q, orderItem_unitPrice = p\<rparr>"

definition deleteMany_rejects :: faults where
  "deleteMany_rejects = (\<lambda>s. s = CartItemDeleteMany)"


definition db_after_order :: db where
  "db_after_order =
     db_shop\<lparr>cartItems := [\<lparr>cartItem_id = 2, cartItem_cartId = 2, cartItem_furnitureId = 2,
                              cartItem_quantity = 1\<rparr>],
             orders := [first_order PENDING 220],
             orderItems := [line 1 1 2 50, line 2 2 1 120]\<rparr>"

definition db_after_checkout :: db where
  "db_after_checkout =
     db_shop\<lparr>cartItems := [\<lparr>cartItem_id = 2, cartItem_cartId = 2, cartItem_furnitureId = 2,
                              cartItem_quantity = 1\<rparr>],
             orders := [first_order COMPLETED 100],
             orderItems := [line 1 1 2 50]\<rparr>"

definition db_after_direct_checkout :: db where
  "db_after_direct_checkout =
     db_shop\<lparr>orders := [first_order COMPLETED 220],
             orderItems := [line 1 1 2 50, line 2 2 1 120]\<rparr>"

definition db_after_failed_clear :: db where
  "db_after_failed_clear =
     db_shop\<lparr>orders := [first_order COMPLETED 100], orderItems := [line 1 1 2 50]\<rparr>"


definition stool :: furniture where
  "stool = \<lparr>furniture_id = 3, furniture_categoryId = 1, furniture_price = 60, furniture_createdAt = 30\<rparr>"

text \<open>
  A store for the recommendation queries: users 1 and 2 each bought one chair in
  a COMPLETED order and reviewed it (4 and 5 stars); user 3 bought nothing.
\<close>

definition db_rec :: db where
  "db_rec = \<lparr>users = [\<lparr>user_id = 1\<rparr>, \<lparr>user_id = 2\<rparr>, \<lparr>user_id = 3\<rparr>],
              categories = [\<lparr>category_id = 1\<rparr>],
              furnitures = [chair, desk, stool],
              reviews = [\<lparr>review_id = 1, review_userId = 1, review_furnitureId = 1,
                          review_rating = 4, review_comment = None\<rparr>,
                         \<lparr>review_id = 2, review_userId = 2, review_furnitureId = 1,
                          review_rating = 5, review_comment = None\<rparr>],
              carts = [], cartItems = [],
              orders = [\<lparr>order_id = 1, order_userId = Some 1, order_totalAmount = 50,
                         order_status = COMPLETED\<rparr>,
                        \<lparr>order_id = 2, order_userId = Some 2, order_totalAmount = 50,
                         order_status = COMPLETED\<rparr>],
              orderItems = [\<lparr>orderItem_id = 1, orderItem_orderId = 1, orderItem_furnitureId = 1,
                             orderItem_quantity = 1, orderItem_unitPrice = 50\<rparr>,
                            \<lparr>orderItem_id = 2, orderItem_orderId = 2, orderItem_furnitureId = 1,
                             orderItem_quantity = 1, orderItem_unitPrice = 50\<rparr>]\<rparr>"

definition listed :: "furniture \<Rightarrow> rat option \<Rightarrow> nat \<Rightarrow> nat option \<Rightarrow> recommendation" where
  "listed f avg n oc = \<lparr>rec_row = f, averageRating = avg, reviewCount = n, rec_reviews = None,
                        orderCount = oc, rec_count = None\<rparr>"

definition query :: "string option \<Rightarrow> string option \<Rightarrow> recommendationQuery" where
  "query l e = \<lparr>query_limit = l, query_excludeId = e\<rparr>"


text \<open>The same store before user 2 has written a review.\<close>

definition db_rev :: db where
  "db_rev = db_rec\<lparr>reviews := [\<lparr>review_id = 1, review_userId = 1, review_furnitureId = 1,
                                 review_rating = 4, review_comment = None\<rparr>]\<rparr>"

definition review2 :: review where
  "review2 = \<lparr>review_id = 2, review_userId = 2, review_furnitureId = 1,
              review_rating = 5, review_comment = Some ''sturdy''\<rparr>"


definition db_after_review :: db where
  "db_after_review = db_rev\<lparr>reviews := reviews db_rev @ [review2]\<rparr>"

section \<open>Properties of the order status transitions\<close>

lemma find_map_status:
  "find (\<lambda>x. order_id x = oid) os = Some ord \<Longrightarrow>
   find (\<lambda>x. order_id x = oid)
     (map (\<lambda>x. if order_id x = oid then x\<lparr>order_status := st\<rparr> else x) os)
   = Some (ord\<lparr>order_status := st\<rparr>)"
  by (induction os) (auto split: if_splits)

text \<open>
  C4. For an existing order: when its status is COMPLETED or CANCELLED, an update
  to any other status fails with status code 400 and leaves the store as it was;
  when its status is PENDING, an update to COMPLETED or to CANCELLED succeeds, and
  the stored order then carries the new status.
\<close>

theorem updateOrderStatus_transitions:
  assumes "find (\<lambda>x. order_id x = oid) (orders d) = Some existing"
  shows "(order_status existing \<in> {COMPLETED, CANCELLED} \<and> status \<noteq> order_status existing \<longrightarrow>
            (\<exists>msg. fst (updateOrderStatus d oid status) = Inl (ApiError 400 msg)) \<and>
            snd (updateOrderStatus d oid status) = d)
       \<and> (order_status existing = PENDING \<and> status \<in> {COMPLETED, CANCELLED} \<longrightarrow>
            fst (updateOrderStatus d oid status) = Inr (existing\<lparr>order_status := status\<rparr>) \<and>
            find (\<lambda>x. order_id x = oid) (orders (snd (updateOrderStatus d oid status)))
              = Some (existing\<lparr>order_status := status\<rparr>))"
  using assms by (auto simp: updateOrderStatus_def find_map_status)

theorem updateOrderStatus_transitions_witness:
  "fst (updateOrderStatus db_orders 2 PENDING)
     = Inl (ApiError 400 ''Cannot change status of completed order'')
   \<and> snd (updateOrderStatus db_orders 2 PENDING) = db_orders
   \<and> fst (updateOrderStatus db_orders 1 CANCELLED) = Inr (order1\<lparr>order_status := CANCELLED\<rparr>)
   \<and> find (\<lambda>x. order_id x = 1) (orders (snd (updateOrderStatus db_orders 1 CANCELLED)))
       = Some (order1\<lparr>order_status := CANCELLED\<rparr>)"
proof -
  have f2: "find (\<lambda>x. order_id x = 2) (orders db_orders) = Some order2"
    by (simp add: db_orders_def order1_def order2_def)
  have f1: "find (\<lambda>x. order_id x = 1) (orders db_orders) = Some order1"
    by (simp add: db_orders_def order1_def order2_def)
  have s2: "order_status order2 = COMPLETED" by (simp add: order2_def)
  have s1: "order_status order1 = PENDING" by (simp add: order1_def)
  from updateOrderStatus_transitions [OF f2, of PENDING] s2
  have a: "(\<exists>msg. fst (updateOrderStatus db_orders 2 PENDING) = Inl (ApiError 400 msg))
           \<and> snd (updateOrderStatus db_orders 2 PENDING) = db_orders"
    by simp
  have b: "fst (updateOrderStatus db_orders 2 PENDING)
             = Inl (ApiError 400 ''Cannot change status of completed order'')"
    by (simp add: updateOrderStatus_def db_orders_def order1_def order2_def)
  from updateOrderStatus_transitions [OF f1, of CANCELLED] s1
  have c: "fst (updateOrderStatus db_orders 1 CANCELLED) = Inr (order1\<lparr>order_status := CANCELLED\<rparr>)
           \<and> find (\<lambda>x. order_id x = 1) (orders (snd (updateOrderStatus db_orders 1 CANCELLED)))
               = Some (order1\<lparr>order_status := CANCELLED\<rparr>)"
    by simp
  from a b c show ?thesis by simp
qed

section \<open>Properties of order creation\<close>

lemma new_items_total:
  "lines_total (new_items a b xs)
     = sum_list (map (\<lambda>x. data_unitPrice x * of_int (data_quantity x)) xs)"
  by (induction xs arbitrary: a) (simp_all add: lines_total_def line_total_def)

lemma new_items_fields:
  "oi \<in> set (new_items a b xs) \<Longrightarrow>
     orderItem_orderId oi = b \<and>
     (\<exists>x \<in> set xs. orderItem_furnitureId oi = data_furnitureId x
                  \<and> orderItem_unitPrice oi = data_unitPrice x)"
  by (induction xs arbitrary: a) auto

lemma furnitureMap_Some:
  "furnitureMap fs i = Some f \<Longrightarrow> f \<in> set fs \<and> furniture_id f = i"
  by (auto simp: furnitureMap_def dest!: map_of_SomeD)

lemma createOrder_loop_inv:
  "createOrder_loop m items (t, acc) = Inr (t', acc') \<Longrightarrow>
     \<exists>new. acc' = acc @ new
         \<and> t' = t + sum_list (map (\<lambda>x. data_unitPrice x * of_int (data_quantity x)) new)
         \<and> (\<forall>x \<in> set new. \<exists>f. m (data_furnitureId x) = Some f \<and> data_unitPrice x = furniture_price f)
         \<and> length new = length items"
proof (induction items arbitrary: t acc)
  case Nil
  then show ?case by simp
next
  case (Cons item rest)
  then obtain f where f: "m (item_furnitureId item) = Some f"
    by (auto split: option.splits)
  let ?x = "\<lparr>data_furnitureId = item_furnitureId item, data_quantity = item_quantity item,
              data_unitPrice = furniture_price f\<rparr>"
  from Cons.prems f
  have "createOrder_loop m rest (t + furniture_price f * of_int (item_quantity item), acc @ [?x])
          = Inr (t', acc')"
    by (simp add: Let_def)
  from Cons.IH [OF this] obtain new where
    new: "acc' = (acc @ [?x]) @ new"
         "t' = t + furniture_price f * of_int (item_quantity item)
                 + sum_list (map (\<lambda>x. data_unitPrice x * of_int (data_quantity x)) new)"
         "\<forall>x \<in> set new. \<exists>f. m (data_furnitureId x) = Some f \<and> data_unitPrice x = furniture_price f"
         "length new = length rest"
    by blast
  show ?case
    by (rule exI [of _ "?x # new"]) (use new f in \<open>simp add: add.assoc\<close>)
qed

lemma placeOrder_loop_inv:
  "placeOrder_loop m items (t, acc) = (t', acc') \<Longrightarrow>
     \<exists>new. acc' = acc @ new
         \<and> t' = t + sum_list (map (\<lambda>x. data_unitPrice x * of_int (data_quantity x)) new)
         \<and> (\<forall>x \<in> set new. \<exists>f. m (data_furnitureId x) = Some f \<and> data_unitPrice x = furniture_price f)"
proof (induction items arbitrary: t acc)
  case Nil
  then show ?case by simp
next
  case (Cons item rest)
  show ?case
  proof (cases "m (item_furnitureId item)")
    case None
    with Cons.prems have "placeOrder_loop m rest (t, acc) = (t', acc')" by simp
    from Cons.IH [OF this] show ?thesis .
  next
    case (Some f)
    let ?x = "\<lparr>data_furnitureId = item_furnitureId item, data_quantity = item_quantity item,
                data_unitPrice = furniture_price f\<rparr>"
    from Cons.prems Some
    have "placeOrder_loop m rest (t + furniture_price f * of_int (item_quantity item), acc @ [?x])
            = (t', acc')"
      by (simp add: Let_def)
    from Cons.IH [OF this] obtain new where
      new: "acc' = (acc @ [?x]) @ new"
           "t' = t + furniture_price f * of_int (item_quantity item)
                   + sum_list (map (\<lambda>x. data_unitPrice x * of_int (data_quantity x)) new)"
           "\<forall>x \<in> set new. \<exists>f. m (data_furnitureId x) = Some f \<and> data_unitPrice x = furniture_price f"
      by blast
    show ?thesis
      by (rule exI [of _ "?x # new"]) (use new Some in \<open>simp add: add.assoc\<close>)
  qed
qed

lemma cart_loop_inv:
  "cart_loop d items (t, acc) = Inr (t', acc') \<Longrightarrow>
     \<exists>new. acc' = acc @ new
         \<and> t' = t + sum_list (map (\<lambda>x. data_unitPrice x * of_int (data_quantity x)) new)
         \<and> (\<forall>x \<in> set new. \<exists>f \<in> set (furnitures d).
                furniture_id f = data_furnitureId x \<and> data_unitPrice x = furniture_price f)
         \<and> length new = length items"
proof (induction items arbitrary: t acc)
  case Nil
  then show ?case by simp
next
  case (Cons ci rest)
  then obtain f where f: "find (\<lambda>f. furniture_id f = cartItem_furnitureId ci) (furnitures d) = Some f"
    by (auto split: option.splits)
  then have fin: "f \<in> set (furnitures d)" "furniture_id f = cartItem_furnitureId ci"
    by (auto simp: find_Some_iff)
  let ?x = "\<lparr>data_furnitureId = cartItem_furnitureId ci, data_quantity = cartItem_quantity ci,
              data_unitPrice = furniture_price f\<rparr>"
  from Cons.prems f
  have "cart_loop d rest (t + furniture_price f * of_int (cartItem_quantity ci), acc @ [?x])
          = Inr (t', acc')"
    by (simp add: Let_def)
  from Cons.IH [OF this] obtain new where
    new: "acc' = (acc @ [?x]) @ new"
         "t' = t + furniture_price f * of_int (cartItem_quantity ci)
                 + sum_list (map (\<lambda>x. data_unitPrice x * of_int (data_quantity x)) new)"
         "\<forall>x \<in> set new. \<exists>f \<in> set (furnitures d).
             furniture_id f = data_furnitureId x \<and> data_unitPrice x = furniture_price f"
         "length new = length rest"
    by blast
  show ?case
    by (rule exI [of _ "?x # new"]) (use new fin in \<open>auto simp: add.assoc\<close>)
qed

lemma order_create_Inr:
  assumes "order_create fl u t st xs d = (Inr (newOrder, newItems), d')"
  shows "order_totalAmount newOrder = t \<and> order_userId newOrder = u \<and> order_status newOrder = st
       \<and> newItems = new_items (next_id (map orderItem_id (orderItems d))) (order_id newOrder) xs
       \<and> orders d' = orders d @ [newOrder] \<and> orderItems d' = orderItems d @ newItems
       \<and> cartItems d' = cartItems d \<and> carts d' = carts d \<and> furnitures d' = furnitures d
       \<and> users d' = users d"
  using assms by (auto simp: order_create_def Let_def split: if_splits)

lemma order_create_Inl:
  "order_create fl u t st xs d = (Inl e, d') \<Longrightarrow> d' = d"
  by (auto simp: order_create_def Let_def split: if_splits)

lemma order_create_consistent:
  assumes oc: "order_create fl u t st xs d = (Inr (newOrder, newItems), d')"
      and t: "t = sum_list (map (\<lambda>x. data_unitPrice x * of_int (data_quantity x)) xs)"
      and snap: "\<forall>x \<in> set xs. \<exists>f \<in> set (furnitures d).
                    furniture_id f = data_furnitureId x \<and> data_unitPrice x = furniture_price f"
  shows "consistent_order d d' newOrder newItems"
proof -
  note r = order_create_Inr [OF oc]
  have "order_totalAmount newOrder = lines_total newItems"
    using r t by (simp add: new_items_total)
  moreover have "\<forall>oi \<in> set newItems. orderItem_orderId oi = order_id newOrder \<and> snapshot_of d oi"
  proof
    fix oi assume "oi \<in> set newItems"
    with r have "oi \<in> set (new_items (next_id (map orderItem_id (orderItems d))) (order_id newOrder) xs)"
      by simp
    from new_items_fields [OF this] snap show "orderItem_orderId oi = order_id newOrder \<and> snapshot_of d oi"
      by (fastforce simp: snapshot_of_def)
  qed
  ultimately show ?thesis
    using r by (simp add: consistent_order_def list_all_iff)
qed





lemma new_items_maps:
  "map orderItem_furnitureId (new_items a b xs) = map data_furnitureId xs"
  "map orderItem_quantity (new_items a b xs) = map data_quantity xs"
  by (induction xs arbitrary: a) simp_all

lemma createOrder_loop_lines:
  "createOrder_loop m items (t, acc) = Inr (t', acc') \<Longrightarrow>
     map data_furnitureId acc' = map data_furnitureId acc @ map item_furnitureId items
   \<and> map data_quantity acc' = map data_quantity acc @ map item_quantity items"
proof (induction items arbitrary: t acc)
  case Nil
  then show ?case by simp
next
  case (Cons item rest)
  then obtain f where f: "m (item_furnitureId item) = Some f"
    by (auto split: option.splits)
  let ?x = "\<lparr>data_furnitureId = item_furnitureId item, data_quantity = item_quantity item,
              data_unitPrice = furniture_price f\<rparr>"
  from Cons.prems f
  have "createOrder_loop m rest (t + furniture_price f * of_int (item_quantity item), acc @ [?x])
          = Inr (t', acc')"
    by (simp add: Let_def)
  from Cons.IH [OF this] show ?case by simp
qed


text \<open>The steps that a successful \<^verbatim>\<open>createOrder\<close> went through.\<close>

lemma createOrder_Inr_steps:
  assumes "createOrder fl d u items g = (Inr (newOrder, newItems), d')"
  shows "\<exists>t xs tx'.
           createOrder_loop (furnitureMap (furniture_in d (map item_furnitureId items)))
             items (0, []) = Inr (t, xs)
         \<and> order_create fl u t PENDING xs d = (Inr (newOrder, newItems), tx')
         \<and> orders d' = orders tx' \<and> orderItems d' = orderItems tx'"
proof -
  from assms obtain t xs where
    loop: "createOrder_loop (furnitureMap (furniture_in d (map item_furnitureId items)))
             items (0, []) = Inr (t, xs)"
    by (auto simp: createOrder_def findMany_furniture_in_def Let_def transaction_def
             split: if_splits sum.splits prod.splits)
  from assms loop obtain tx' where
    "order_create fl u t PENDING xs d = (Inr (newOrder, newItems), tx')"
    "orders d' = orders tx'" "orderItems d' = orderItems tx'"
    by (auto simp: createOrder_def findMany_furniture_in_def Let_def transaction_def
               cartItem_deleteMany_def
             split: if_splits sum.splits prod.splits)
  with loop show ?thesis by blast
qed

lemma createOrder_Inr_consistent:
  assumes "createOrder fl d u items g = (Inr (newOrder, newItems), d')"
  shows "consistent_order d d' newOrder newItems \<and> lines_match items newItems"
proof -
  let ?fs = "furniture_in d (map item_furnitureId items)"
  from createOrder_Inr_steps [OF assms] obtain t xs tx' where
    loop: "createOrder_loop (furnitureMap ?fs) items (0, []) = Inr (t, xs)"
    and oc: "order_create fl u t PENDING xs d = (Inr (newOrder, newItems), tx')"
    and d': "orders d' = orders tx'" "orderItems d' = orderItems tx'"
    by blast
  from createOrder_loop_inv [OF loop] have
    t: "t = sum_list (map (\<lambda>x. data_unitPrice x * of_int (data_quantity x)) xs)"
    and m: "\<forall>x \<in> set xs. \<exists>f. furnitureMap ?fs (data_furnitureId x) = Some f
                              \<and> data_unitPrice x = furniture_price f"
    by auto
  have snap: "\<forall>x \<in> set xs. \<exists>f \<in> set (furnitures d).
                 furniture_id f = data_furnitureId x \<and> data_unitPrice x = furniture_price f"
  proof
    fix x assume "x \<in> set xs"
    with m obtain f where "furnitureMap ?fs (data_furnitureId x) = Some f"
      "data_unitPrice x = furniture_price f" by blast
    with furnitureMap_Some [of ?fs "data_furnitureId x" f]
    show "\<exists>f \<in> set (furnitures d).
            furniture_id f = data_furnitureId x \<and> data_unitPrice x = furniture_price f"
      by (auto simp: furniture_in_def)
  qed
  from order_create_consistent [OF oc t snap] d'
  have c: "consistent_order d d' newOrder newItems"
    by (simp add: consistent_order_def)
  from createOrder_loop_lines [OF loop] order_create_Inr [OF oc]
  have "lines_match items newItems"
    by (simp add: lines_match_def new_items_maps)
  with c show ?thesis by simp
qed

lemma placeOrder_items_Inr:
  assumes "placeOrder_items d userId directItems = Inr (xs, t, clear)"
  shows "t = sum_list (map (\<lambda>x. data_unitPrice x * of_int (data_quantity x)) xs)
       \<and> (\<forall>x \<in> set xs. \<exists>f \<in> set (furnitures d).
             furniture_id f = data_furnitureId x \<and> data_unitPrice x = furniture_price f)"
proof (cases "case directItems of None \<Rightarrow> False | Some xs \<Rightarrow> 0 < length xs")
  case True
  let ?fs = "furniture_in d (map item_furnitureId (the directItems))"
  from assms True have loop: "placeOrder_loop (furnitureMap ?fs) (the directItems) (0, []) = (t, xs)"
    by (auto simp: placeOrder_items_def findMany_furniture_in_def Let_def
             split: if_splits prod.splits)
  from placeOrder_loop_inv [OF loop] have
    t: "t = sum_list (map (\<lambda>x. data_unitPrice x * of_int (data_quantity x)) xs)"
    and m: "\<forall>x \<in> set xs. \<exists>f. furnitureMap ?fs (data_furnitureId x) = Some f
                              \<and> data_unitPrice x = furniture_price f"
    by auto
  have "\<forall>x \<in> set xs. \<exists>f \<in> set (furnitures d).
                 furniture_id f = data_furnitureId x \<and> data_unitPrice x = furniture_price f"
  proof
    fix x assume "x \<in> set xs"
    with m obtain f where "furnitureMap ?fs (data_furnitureId x) = Some f"
      "data_unitPrice x = furniture_price f" by blast
    with furnitureMap_Some [of ?fs "data_furnitureId x" f]
    show "\<exists>f \<in> set (furnitures d).
            furniture_id f = data_furnitureId x \<and> data_unitPrice x = furniture_price f"
      by (auto simp: furniture_in_def)
  qed
  with t show ?thesis by simp
next
  case False
  with assms obtain cart :: cart where
    loop: "cart_loop d (filter (\<lambda>ci. cartItem_cartId ci = cart_id cart) (cartItems d)) (0, [])
             = Inr (t, xs)"
    by (fastforce simp: placeOrder_items_def Let_def split: if_splits option.splits sum.splits)
  from cart_loop_inv [OF loop] show ?thesis by auto
qed

lemma placeOrder_Inr_steps:
  assumes "placeOrder fl d u directItems = (Inr (newOrder, newItems), d')"
  shows "\<exists>xs t clear d1.
           placeOrder_items d (the u) directItems = Inr (xs, t, clear)
         \<and> order_create fl (Some (the u)) t COMPLETED xs d = (Inr (newOrder, newItems), d1)
         \<and> orders d' = orders d1 \<and> orderItems d' = orderItems d1"
proof -
  from assms obtain xs t clear where
    items: "placeOrder_items d (the u) directItems = Inr (xs, t, clear)"
    by (auto simp: placeOrder_def Let_def split: if_splits sum.splits)
  from assms items obtain d1 where
    "order_create fl (Some (the u)) t COMPLETED xs d = (Inr (newOrder, newItems), d1)"
    "orders d' = orders d1" "orderItems d' = orderItems d1"
    by (auto simp: placeOrder_def Let_def cartItem_deleteMany_def
             split: if_splits sum.splits prod.splits option.splits)
  with items show ?thesis by blast
qed

lemma placeOrder_Inr_consistent:
  assumes "placeOrder fl d u directItems = (Inr (newOrder, newItems), d')"
  shows "consistent_order d d' newOrder newItems"
proof -
  from placeOrder_Inr_steps [OF assms] obtain xs t clear d1 where
    items: "placeOrder_items d (the u) directItems = Inr (xs, t, clear)"
    and oc: "order_create fl (Some (the u)) t COMPLETED xs d = (Inr (newOrder, newItems), d1)"
    and d': "orders d' = orders d1" "orderItems d' = orderItems d1"
    by blast
  from placeOrder_items_Inr [OF items] order_create_consistent [OF oc] d' show ?thesis
    by (simp add: consistent_order_def)
qed






lemmas example_defs =
  db_shop_def chair_def desk_def two_chairs_one_desk_def chair_and_unknown_def
  chair_and_huge_id_def first_order_def line_def deleteMany_rejects_def no_faults_def
  db_after_order_def db_after_checkout_def db_after_direct_checkout_def
  db_after_failed_clear_def

lemmas createOrder_defs =
  createOrder_def createOrderSchema_def findMany_furniture_in_def furniture_in_def in_int4_def
  furnitureMap_def transaction_def order_create_def cartItem_deleteMany_def in_cart_of_def
  next_id_def Let_def

lemmas placeOrder_defs =
  placeOrder_def placeOrder_items_def findMany_furniture_in_def furniture_in_def in_int4_def
  furnitureMap_def order_create_def cartItem_deleteMany_def next_id_def Let_def

lemma createOrder_example:
  "createOrder no_faults db_shop (Some 1) two_chairs_one_desk None
     = (Inr (first_order PENDING 220, [line 1 1 2 50, line 2 2 1 120]), db_after_order)"
  by (simp add: example_defs createOrder_defs)









section \<open>The cart after an order\<close>

lemma createOrder_Inl_unchanged:
  "createOrder fl d u items g = (Inl e, d') \<Longrightarrow> d' = d"
  by (auto simp: createOrder_def Let_def transaction_def
           split: if_splits sum.splits prod.splits)

lemma createOrder_Inr_cart:
  assumes u: "truthy u"
      and ok: "createOrder fl d u items g = (Inr (newOrder, newItems), d')"
  shows "cartItems d' = filter (\<lambda>ci. \<not> in_cart_of d u ci) (cartItems d) \<and> carts d' = carts d"
proof -
  from ok obtain t xs where
    loop: "createOrder_loop (furnitureMap (furniture_in d (map item_furnitureId items)))
             items (0, []) = Inr (t, xs)"
    by (auto simp: createOrder_def findMany_furniture_in_def Let_def transaction_def
             split: if_splits sum.splits prod.splits)
  from ok loop u obtain tx' where
    oc: "order_create fl u t PENDING xs d = (Inr (newOrder, newItems), tx')"
    and del: "cartItem_deleteMany fl (in_cart_of tx' u) tx' = (Inr (length (filter (in_cart_of tx' u) (cartItems tx'))), d')"
    by (auto simp: createOrder_def findMany_furniture_in_def Let_def transaction_def
               cartItem_deleteMany_def
             split: if_splits sum.splits prod.splits)
  note r = order_create_Inr [OF oc]
  from r have same: "in_cart_of tx' u = in_cart_of d u"
    by (simp add: in_cart_of_def fun_eq_iff)
  from del r same show ?thesis
    by (auto simp: cartItem_deleteMany_def split: if_splits)
qed

text \<open>
  C10. When an authenticated user creates an order through \<^verbatim>\<open>createOrder\<close>
  from an explicit items array, a successful call appends the order and removes
  every cart item that belongs to a cart of that user, leaving all other cart
  items in place; a failing call, whichever statement failed, leaves the store
  exactly as it was. Creation and cart clearing are one transaction.
\<close>

theorem createOrder_clears_cart:
  assumes "truthy u"
  shows "(createOrder fl d u items g = (Inr (newOrder, newItems), d') \<longrightarrow>
            orders d' = orders d @ [newOrder]
          \<and> cartItems d' = filter (\<lambda>ci. \<not> in_cart_of d u ci) (cartItems d)
          \<and> list_all (\<lambda>ci. \<not> in_cart_of d' u ci) (cartItems d'))
       \<and> (createOrder fl d u items g = (Inl e, d') \<longrightarrow> d' = d)"
proof (intro conjI impI)
  assume ok: "createOrder fl d u items g = (Inr (newOrder, newItems), d')"
  from createOrder_Inr_consistent [OF ok] show "orders d' = orders d @ [newOrder]"
    by (simp add: consistent_order_def)
  from createOrder_Inr_cart [OF assms ok]
  show c: "cartItems d' = filter (\<lambda>ci. \<not> in_cart_of d u ci) (cartItems d)" by simp
  from createOrder_Inr_cart [OF assms ok] have "in_cart_of d' u = in_cart_of d u"
    by (simp add: in_cart_of_def fun_eq_iff)
  with c show "list_all (\<lambda>ci. \<not> in_cart_of d' u ci) (cartItems d')"
    by (simp add: list_all_iff)
next
  assume "createOrder fl d u items g = (Inl e, d')"
  then show "d' = d" by (rule createOrder_Inl_unchanged)
qed

theorem createOrder_clears_cart_witness:
  "truthy (Some 1)
   \<and> createOrder no_faults db_shop (Some 1) two_chairs_one_desk None
       = (Inr (first_order PENDING 220, [line 1 1 2 50, line 2 2 1 120]), db_after_order)
   \<and> filter (in_cart_of db_shop (Some 1)) (cartItems db_shop)
       = [\<lparr>cartItem_id = 1, cartItem_cartId = 1, cartItem_furnitureId = 1, cartItem_quantity = 2\<rparr>]
   \<and> filter (in_cart_of db_after_order (Some 1)) (cartItems db_after_order) = []
   \<and> cartItems db_after_order = filter (\<lambda>ci. \<not> in_cart_of db_shop (Some 1) ci) (cartItems db_shop)
   \<and> createOrder deleteMany_rejects db_shop (Some 1) two_chairs_one_desk None
       = (Inl DatabaseError, db_shop)"
proof -
  have t: "truthy (Some 1)" by simp
  note inst = createOrder_clears_cart [OF t, of no_faults db_shop two_chairs_one_desk None
    "first_order PENDING 220" "[line 1 1 2 50, line 2 2 1 120]" db_after_order]
  from inst createOrder_example
  have a: "cartItems db_after_order
             = filter (\<lambda>ci. \<not> in_cart_of db_shop (Some 1) ci) (cartItems db_shop)"
    and b: "list_all (\<lambda>ci. \<not> in_cart_of db_after_order (Some 1) ci) (cartItems db_after_order)"
    by blast+
  from b have b': "filter (in_cart_of db_after_order (Some 1)) (cartItems db_after_order) = []"
    by (simp add: list_all_iff filter_empty_conv)
  have before: "filter (in_cart_of db_shop (Some 1)) (cartItems db_shop)
       = [\<lparr>cartItem_id = 1, cartItem_cartId = 1, cartItem_furnitureId = 1, cartItem_quantity = 2\<rparr>]"
    by (simp add: example_defs in_cart_of_def)
  have "fst (createOrder deleteMany_rejects db_shop (Some 1) two_chairs_one_desk None)
          = Inl DatabaseError"
    by (simp add: example_defs createOrder_defs)
  with createOrder_clears_cart [OF t, of deleteMany_rejects db_shop two_chairs_one_desk None
      _ _ "snd (createOrder deleteMany_rejects db_shop (Some 1) two_chairs_one_desk None)"
      DatabaseError]
  have c: "createOrder deleteMany_rejects db_shop (Some 1) two_chairs_one_desk None
             = (Inl DatabaseError, db_shop)"
    by (metis prod.collapse)
  from t createOrder_example before b' a c show ?thesis by simp
qed

section \<open>Cart-sourced checkout\<close>

lemma placeOrder_cart_success:
  assumes "placeOrder fl d (Some userId) None = (Inr (newOrder, newItems), d')"
  shows "orders d' = orders d @ [newOrder]
       \<and> (\<forall>c \<in> set (carts d'). cart_userId c = userId \<longrightarrow>
            (\<exists>c0 \<in> set (carts d'). cart_userId c0 = userId
               \<and> filter (\<lambda>ci. cartItem_cartId ci = cart_id c0) (cartItems d') = []))"
proof -
  from placeOrder_Inr_consistent [OF assms] have o: "orders d' = orders d @ [newOrder]"
    by (simp add: consistent_order_def)
  from assms obtain xs t where
    items: "placeOrder_items d userId None = Inr (xs, t, True)"
    by (auto simp: placeOrder_def placeOrder_items_def Let_def
             split: if_splits sum.splits option.splits)
  from assms items obtain d1 where
    oc: "order_create fl (Some userId) t COMPLETED xs d = (Inr (newOrder, newItems), d1)"
    by (auto simp: placeOrder_def Let_def cartItem_deleteMany_def
             split: if_splits sum.splits prod.splits option.splits)
  note r = order_create_Inr [OF oc]
  from items obtain c0 :: cart where c0: "find (\<lambda>c. cart_userId c = userId) (carts d) = Some c0"
    by (auto simp: placeOrder_items_def Let_def split: option.splits)
  with r have c1: "find (\<lambda>c. cart_userId c = userId) (carts d1) = Some c0" by simp
  from assms items oc c1
  have d': "d' = d1\<lparr>cartItems := filter (\<lambda>ci. \<not> cartItem_cartId ci = cart_id c0) (cartItems d1)\<rparr>"
    by (auto simp: placeOrder_def Let_def cartItem_deleteMany_def split: if_splits)
  from c0 have "c0 \<in> set (carts d)" "cart_userId c0 = userId"
    by (auto simp: find_Some_iff)
  with d' r have "c0 \<in> set (carts d')" "cart_userId c0 = userId"
    "filter (\<lambda>ci. cartItem_cartId ci = cart_id c0) (cartItems d') = []"
    by (auto simp: filter_empty_conv)
  with o show ?thesis by blast
qed

text \<open>
  C1. A cart-sourced checkout in which the database rejects the
  \<^verbatim>\<open>cartItem.deleteMany\<close> statement: the handler answers with the error, yet the
  order and its line are stored and the cart still holds its item. Order
  creation and cart clearing are two separate statements in \<^verbatim>\<open>placeOrder\<close>,
  not one transaction.
\<close>

theorem placeOrder_cart_clear_not_atomic:
  "placeOrder deleteMany_rejects db_shop (Some 1) None = (Inl DatabaseError, db_after_failed_clear)
   \<and> orders db_after_failed_clear = [first_order COMPLETED 100]
   \<and> orderItems db_after_failed_clear = [line 1 1 2 50]
   \<and> cartItems db_after_failed_clear = cartItems db_shop
   \<and> filter (\<lambda>ci. cartItem_cartId ci = 1) (cartItems db_after_failed_clear)
       = [\<lparr>cartItem_id = 1, cartItem_cartId = 1, cartItem_furnitureId = 1, cartItem_quantity = 2\<rparr>]"
  by (simp add: example_defs placeOrder_defs)

section \<open>Properties of the recommendation queries\<close>

lemma orderBy_reviews_createdAt_set [simp]:
  "set (orderBy_reviews_createdAt d fs) = set fs"
  by (simp add: orderBy_reviews_createdAt_def)

lemma orderBy_reviews_createdAt_mset [simp]:
  "mset (orderBy_reviews_createdAt d fs) = mset fs"
  by (simp add: orderBy_reviews_createdAt_def)

lemma orderBy_orderItems_set [simp]:
  "set (orderBy_orderItems d fs) = set fs"
  by (simp add: orderBy_orderItems_def)

lemma orderBy_orderItems_mset [simp]:
  "mset (orderBy_orderItems d fs) = mset fs"
  by (simp add: orderBy_orderItems_def)

lemma distinct_ids_mset:
  "mset xs = mset ys \<Longrightarrow> distinct (map furniture_id xs) = distinct (map furniture_id ys)"
  by (rule mset_eq_imp_distinct_iff) simp

lemma distinct_ids_filter:
  "distinct (furniture_ids d) \<Longrightarrow> distinct (map furniture_id (filter P (furnitures d)))"
  by (simp add: furniture_ids_def distinct_map_filter)

lemma distinct_ids_take: "distinct (map furniture_id fs) \<Longrightarrow> distinct (map furniture_id (take k fs))"
  by (simp add: take_map [symmetric])

lemma rec_id_withRatings [simp]: "rec_id (withRatings (include_reviews d f)) = furniture_id f"
  by (simp add: rec_id_def withRatings_def include_reviews_def)

lemma rec_id_withRatingsAndOrderCount [simp]:
  "rec_id (withRatingsAndOrderCount (include_reviews_count d f)) = furniture_id f"
  by (simp add: rec_id_def withRatingsAndOrderCount_def withRatings_def include_reviews_count_def)

lemma rec_row_withRatings [simp]: "rec_row (withRatings (include_reviews d f)) = f"
  by (simp add: withRatings_def include_reviews_def)

lemma foldl_plus_sum_list: "foldl (+) a rs = a + sum_list (rs :: int list)"
  by (induction rs arbitrary: a) simp_all

lemma rated_withRatings: "rated d (withRatings (include_reviews d f))"
  by (simp add: rated_def Let_def mean_def foldl_plus_sum_list rec_id_def
        withRatings_def include_reviews_def)

lemma rated_withRatingsAndOrderCount:
  "rated d (withRatingsAndOrderCount (include_reviews_count d f))"
  by (simp add: rated_def Let_def mean_def foldl_plus_sum_list rec_id_def
        withRatingsAndOrderCount_def withRatings_def include_reviews_count_def)

text \<open>The three helper queries under an integer limit.\<close>

lemma getCollaborative_Num:
  "getCollaborativeRecommendations d userId (Num k) excludeId = Inr rs \<Longrightarrow> 0 \<le> k \<Longrightarrow>
     \<exists>fs. rs = map (withRatings \<circ> include_reviews d) fs
        \<and> length fs \<le> nat k
        \<and> set fs \<subseteq> {f \<in> set (furnitures d).
              furniture_id f \<notin> set (map (\<lambda>x. orderItem_furnitureId (fst x)) (findMany_userOrders d userId))
            \<and> furniture_id f \<notin> set (excluded excludeId)}
        \<and> (distinct (furniture_ids d) \<longrightarrow> distinct (map furniture_id fs))"
proof (cases "length (findMany_userOrders d userId) = 0")
  case True
  assume "getCollaborativeRecommendations d userId (Num k) excludeId = Inr rs"
  with True have "rs = []" by (simp add: getCollaborativeRecommendations_def)
  then show ?thesis by (intro exI [of _ "[]"]) simp
next
  case False
  assume r: "getCollaborativeRecommendations d userId (Num k) excludeId = Inr rs" and k: "0 \<le> k"
  let ?P = "\<lambda>f. furniture_categoryId f \<in> set (js_Set (map snd (findMany_userOrders d userId)))
               \<and> furniture_id f \<notin> set (map (\<lambda>x. orderItem_furnitureId (fst x)) (findMany_userOrders d userId)
                                          @ excluded excludeId)"
  let ?fs = "take (nat k) (orderBy_reviews_createdAt d (filter ?P (furnitures d)))"
  from r False k have rs: "rs = map (withRatings \<circ> include_reviews d) ?fs"
    by (auto simp: getCollaborativeRecommendations_def Let_def)
  have sub: "set ?fs \<subseteq> set (filter ?P (furnitures d))"
    using set_take_subset [of "nat k" "orderBy_reviews_createdAt d (filter ?P (furnitures d))"]
    by simp
  have dist: "distinct (furniture_ids d) \<Longrightarrow> distinct (map furniture_id ?fs)"
    using distinct_ids_mset [OF orderBy_reviews_createdAt_mset [of d "filter ?P (furnitures d)"]]
    by (intro distinct_ids_take) (simp add: distinct_ids_filter)
  show ?thesis
    by (rule exI [of _ ?fs]) (use rs sub dist in auto)
qed

lemma sort_key_Nil_iff [simp]: "sort_key f xs = [] \<longleftrightarrow> xs = []"
  by (metis length_0_conv length_sort)

lemma getCategoryBased_Num:
  "getCategoryBasedRecommendations d userOrders (Num k) excludeId excludeIds = Inr rs \<Longrightarrow> 0 \<le> k \<Longrightarrow>
     \<exists>fs. rs = map (withRatings \<circ> include_reviews d) fs
        \<and> length fs \<le> nat k
        \<and> set fs \<subseteq> {f \<in> set (furnitures d).
              furniture_id f \<notin> set excludeIds \<and> furniture_id f \<notin> set (excluded excludeId)}
        \<and> (distinct (furniture_ids d) \<longrightarrow> distinct (map furniture_id fs))"
proof -
  assume r: "getCategoryBasedRecommendations d userOrders (Num k) excludeId excludeIds = Inr rs"
     and k: "0 \<le> k"
  let ?cats = "map fst (sort_key (\<lambda>entry. - int (snd entry))
                 (foldl categoryCount_set [] (map snd userOrders)))"
  show ?thesis
  proof (cases "length ?cats = 0")
    case True
    with r have "rs = []" by (simp add: getCategoryBasedRecommendations_def Let_def)
    then show ?thesis by (intro exI [of _ "[]"]) simp
  next
    case False
    let ?P = "\<lambda>f. furniture_categoryId f \<in> set ?cats
                 \<and> furniture_id f \<notin> set (excludeIds @ excluded excludeId)"
    let ?fs = "take (nat k) (orderBy_reviews_createdAt d (filter ?P (furnitures d)))"
    from r False k have rs: "rs = map (withRatings \<circ> include_reviews d) ?fs"
      by (auto simp: getCategoryBasedRecommendations_def Let_def)
    have sub: "set ?fs \<subseteq> set (filter ?P (furnitures d))"
      using set_take_subset [of "nat k" "orderBy_reviews_createdAt d (filter ?P (furnitures d))"]
      by simp
    have dist: "distinct (furniture_ids d) \<Longrightarrow> distinct (map furniture_id ?fs)"
      using distinct_ids_mset [OF orderBy_reviews_createdAt_mset [of d "filter ?P (furnitures d)"]]
      by (intro distinct_ids_take) (simp add: distinct_ids_filter)
    show ?thesis
      by (rule exI [of _ ?fs]) (use rs sub dist in auto)
  qed
qed

lemma getPopular_Num:
  "getPopularRecommendationsHelper d (Num k) excludeId excludeIds = Inr rs \<Longrightarrow> 0 \<le> k \<Longrightarrow>
     \<exists>fs. rs = map (withRatingsAndOrderCount \<circ> include_reviews_count d) fs
        \<and> length fs \<le> nat k
        \<and> set fs \<subseteq> {f \<in> set (furnitures d).
              furniture_id f \<notin> set excludeIds \<and> furniture_id f \<notin> set (excluded excludeId)}
        \<and> (distinct (furniture_ids d) \<longrightarrow> distinct (map furniture_id fs))"
proof -
  assume r: "getPopularRecommendationsHelper d (Num k) excludeId excludeIds = Inr rs"
     and k: "0 \<le> k"
  let ?P = "\<lambda>f. furniture_id f \<notin> set (excludeIds @ excluded excludeId)"
  let ?fs = "take (nat k) (orderBy_orderItems d (filter ?P (furnitures d)))"
  from r k have rs: "rs = map (withRatingsAndOrderCount \<circ> include_reviews_count d) ?fs"
    by (auto simp: getPopularRecommendationsHelper_def Let_def)
  have sub: "set ?fs \<subseteq> set (filter ?P (furnitures d))"
    using set_take_subset [of "nat k" "orderBy_orderItems d (filter ?P (furnitures d))"]
    by simp
  have dist: "distinct (furniture_ids d) \<Longrightarrow> distinct (map furniture_id ?fs)"
    using distinct_ids_mset [OF orderBy_orderItems_mset [of d "filter ?P (furnitures d)"]]
    by (intro distinct_ids_take) (simp add: distinct_ids_filter)
  show ?thesis
    by (rule exI [of _ ?fs]) (use rs sub dist in auto)
qed

lemma helpers_total:
  "\<exists>rs. getCollaborativeRecommendations d userId (Num k) excludeId = Inr rs"
  "\<exists>rs. getCategoryBasedRecommendations d userOrders (Num k) excludeId excludeIds = Inr rs"
  "\<exists>rs. getPopularRecommendationsHelper d (Num k) excludeId excludeIds = Inr rs"
  by (simp_all add: getCollaborativeRecommendations_def getCategoryBasedRecommendations_def
        getPopularRecommendationsHelper_def Let_def)

lemma purchased_in_userOrders:
  assumes "f \<in> set (furnitures d)" "furniture_id f \<in> set (purchased_ids d userId)"
  shows "furniture_id f
           \<in> set (map (\<lambda>x. orderItem_furnitureId (fst x)) (findMany_userOrders d userId))"
proof -
  from assms(2) obtain oi where oi: "oi \<in> set (orderItems d)" "in_completed_order_of d userId oi"
      "orderItem_furnitureId oi = furniture_id f"
    by (auto simp: purchased_ids_def)
  with assms(1) obtain f' where
    "find (\<lambda>f. furniture_id f = orderItem_furnitureId oi) (furnitures d) = Some f'"
    by (cases "find (\<lambda>f. furniture_id f = orderItem_furnitureId oi) (furnitures d)")
       (auto simp: find_None_iff)
  with oi have "(oi, furniture_categoryId f') \<in> set (findMany_userOrders d userId)"
    by (force simp: findMany_userOrders_def List.map_filter_def)
  with oi(3) show ?thesis by force
qed


text \<open>What the statements below say about the lists of one request.\<close>

lemma personal_tiers_props:
  assumes n: "0 < n"
  shows "\<exists>collab cat. personal_tiers d userId (Num n) excludeId = Inr (collab, cat)
           \<and> length (collab @ cat) \<le> nat n
           \<and> (distinct (furniture_ids d) \<longrightarrow> distinct (map rec_id (collab @ cat)))
           \<and> (\<forall>r \<in> set collab. rec_id r \<notin> set (purchased_ids d userId))
           \<and> (\<forall>r \<in> set (collab @ cat). rec_id r \<notin> set (excluded excludeId))
           \<and> (\<forall>r \<in> set (collab @ cat). rated d r)
           \<and> (findMany_userOrders d userId = [] \<longrightarrow> collab = [] \<and> cat = [])"
proof (cases "findMany_userOrders d userId = []")
  case True
  then have "personal_tiers d userId (Num n) excludeId = Inr ([], [])"
    by (simp add: personal_tiers_def)
  then show ?thesis by simp
next
  case False
  from helpers_total(1) obtain collab where
    A: "getCollaborativeRecommendations d userId (Num n) excludeId = Inr collab" by blast
  from getCollaborative_Num [OF A] n obtain fa where
    fa: "collab = map (withRatings \<circ> include_reviews d) fa" "length fa \<le> nat n"
        "set fa \<subseteq> {f \<in> set (furnitures d).
              furniture_id f \<notin> set (map (\<lambda>x. orderItem_furnitureId (fst x)) (findMany_userOrders d userId))
            \<and> furniture_id f \<notin> set (excluded excludeId)}"
        "distinct (furniture_ids d) \<longrightarrow> distinct (map furniture_id fa)"
    by force
  have idsA: "map rec_id collab = map furniture_id fa" using fa(1) by simp
  have purA: "\<forall>r \<in> set collab. rec_id r \<notin> set (purchased_ids d userId)"
  proof
    fix r assume "r \<in> set collab"
    with fa(1) obtain f where f: "f \<in> set fa" "r = withRatings (include_reviews d f)" by auto
    with fa(3) have "f \<in> set (furnitures d)"
      "furniture_id f \<notin> set (map (\<lambda>x. orderItem_furnitureId (fst x)) (findMany_userOrders d userId))"
      by auto
    with purchased_in_userOrders [of f d userId] f(2)
    show "rec_id r \<notin> set (purchased_ids d userId)" by auto
  qed
  have exA: "\<forall>r \<in> set collab. rec_id r \<notin> set (excluded excludeId)"
    using fa(1,3) by auto
  have ratedA: "\<forall>r \<in> set collab. rated d r"
    using fa(1) by (auto simp: rated_withRatings)
  show ?thesis
  proof (cases "int (length collab) < n")
    case short: True
    from helpers_total(2) obtain cat where
      B: "getCategoryBasedRecommendations d (findMany_userOrders d userId)
            (Num (n - int (length collab))) excludeId (map rec_id collab) = Inr cat" by blast
    from getCategoryBased_Num [OF B] short obtain fb where
      fb: "cat = map (withRatings \<circ> include_reviews d) fb"
          "length fb \<le> nat (n - int (length collab))"
          "set fb \<subseteq> {f \<in> set (furnitures d).
                furniture_id f \<notin> set (map rec_id collab) \<and> furniture_id f \<notin> set (excluded excludeId)}"
          "distinct (furniture_ids d) \<longrightarrow> distinct (map furniture_id fb)"
      by force
    have idsB: "map rec_id cat = map furniture_id fb" using fb(1) by simp
    have tiers: "personal_tiers d userId (Num n) excludeId = Inr (collab, cat)"
      using False A B short by (simp add: personal_tiers_def)
    have len: "length (collab @ cat) \<le> nat n"
      using fa(1,2) fb(1,2) short by simp
    have "\<forall>f \<in> set fb. furniture_id f \<notin> set (map furniture_id fa)"
      using fb(3) idsA by auto
    then have disj: "set (map furniture_id fa) \<inter> set (map furniture_id fb) = {}"
      by (fastforce simp: image_iff)
    have "map rec_id (collab @ cat) = map furniture_id fa @ map furniture_id fb"
      using idsA idsB by simp
    with disj fa(4) fb(4)
    have dist: "distinct (furniture_ids d) \<longrightarrow> distinct (map rec_id (collab @ cat))"
      by (metis distinct_append)
    have exB: "\<forall>r \<in> set (collab @ cat). rec_id r \<notin> set (excluded excludeId)"
      using exA fb(1,3) by auto
    have ratedB: "\<forall>r \<in> set (collab @ cat). rated d r"
      using ratedA fb(1) by (auto simp: rated_withRatings)
    from tiers len dist purA exB ratedB False show ?thesis by blast
  next
    case full: False
    have tiers: "personal_tiers d userId (Num n) excludeId = Inr (collab, [])"
      using False A full by (simp add: personal_tiers_def)
    have len: "length (collab @ []) \<le> nat n" using fa(1,2) by simp
    have dist: "distinct (furniture_ids d) \<longrightarrow> distinct (map rec_id (collab @ []))"
      using fa(4) idsA by simp
    from tiers len dist purA exA ratedA False show ?thesis
      by (intro exI [of _ collab] exI [of _ "[]"]) simp
  qed
qed

lemma hybrid_tiers_props:
  assumes n: "0 < n"
  shows "\<exists>collab cat popular. hybrid_tiers d userId (Num n) excludeId = Inr (collab, cat, popular)
           \<and> length (collab @ cat @ popular) \<le> nat n
           \<and> (distinct (furniture_ids d) \<longrightarrow> distinct (map rec_id (collab @ cat @ popular)))
           \<and> (\<forall>r \<in> set collab. rec_id r \<notin> set (purchased_ids d userId))
           \<and> (\<forall>r \<in> set (collab @ cat @ popular). rec_id r \<notin> set (excluded excludeId))
           \<and> (\<forall>r \<in> set (collab @ cat @ popular). rated d r)
           \<and> (\<forall>r \<in> set popular. rec_row r \<in> set (furnitures d))
           \<and> (findMany_userOrders d userId = [] \<longrightarrow> collab = [] \<and> cat = [])"
proof -
  from personal_tiers_props [OF n, of d userId excludeId] obtain collab cat where
    pt: "personal_tiers d userId (Num n) excludeId = Inr (collab, cat)"
        "length (collab @ cat) \<le> nat n"
        "distinct (furniture_ids d) \<longrightarrow> distinct (map rec_id (collab @ cat))"
        "\<forall>r \<in> set collab. rec_id r \<notin> set (purchased_ids d userId)"
        "\<forall>r \<in> set (collab @ cat). rec_id r \<notin> set (excluded excludeId)"
        "\<forall>r \<in> set (collab @ cat). rated d r"
        "findMany_userOrders d userId = [] \<longrightarrow> collab = [] \<and> cat = []"
    by blast
  show ?thesis
  proof (cases "int (length (collab @ cat)) < n")
    case short: True
    from helpers_total(3) obtain popular where
      P: "getPopularRecommendationsHelper d (Num (n - int (length (collab @ cat)))) excludeId
            (map rec_id (collab @ cat)) = Inr popular" by blast
    from getPopular_Num [OF P] short obtain fp where
      fp: "popular = map (withRatingsAndOrderCount \<circ> include_reviews_count d) fp"
          "length fp \<le> nat (n - int (length (collab @ cat)))"
          "set fp \<subseteq> {f \<in> set (furnitures d).
                furniture_id f \<notin> set (map rec_id (collab @ cat))
              \<and> furniture_id f \<notin> set (excluded excludeId)}"
          "distinct (furniture_ids d) \<longrightarrow> distinct (map furniture_id fp)"
      by force
    have idsP: "map rec_id popular = map furniture_id fp" using fp(1) by simp
    have tiers: "hybrid_tiers d userId (Num n) excludeId = Inr (collab, cat, popular)"
      using pt(1) P short by (simp add: hybrid_tiers_def)
    have len: "length (collab @ cat @ popular) \<le> nat n"
      using pt(2) fp(1,2) short by simp
    have dist: "distinct (furniture_ids d) \<longrightarrow> distinct (map rec_id (collab @ cat @ popular))"
    proof
      assume pk: "distinct (furniture_ids d)"
      with pt(3) fp(4) idsP have "distinct (map rec_id (collab @ cat))" "distinct (map rec_id popular)"
        by simp_all
      moreover have "\<forall>f \<in> set fp. furniture_id f \<notin> set (map rec_id (collab @ cat))"
        using fp(3) by auto
      then have "set (map rec_id (collab @ cat)) \<inter> set (map rec_id popular) = {}"
        unfolding idsP by auto
      moreover have "map rec_id (collab @ cat @ popular)
                       = map rec_id (collab @ cat) @ map rec_id popular"
        by simp
      ultimately show "distinct (map rec_id (collab @ cat @ popular))"
        by (metis distinct_append)
    qed
    have ex: "\<forall>r \<in> set (collab @ cat @ popular). rec_id r \<notin> set (excluded excludeId)"
      using pt(5) fp(1,3) by auto
    have rt: "\<forall>r \<in> set (collab @ cat @ popular). rated d r"
      using pt(6) fp(1) by (auto simp: rated_withRatingsAndOrderCount)
    have rows: "\<forall>r \<in> set popular. rec_row r \<in> set (furnitures d)"
      using fp(1,3)
      by (auto simp: withRatingsAndOrderCount_def withRatings_def include_reviews_count_def)
    from tiers len dist pt(4) ex rt rows pt(7) show ?thesis by blast
  next
    case full: False
    have tiers: "hybrid_tiers d userId (Num n) excludeId = Inr (collab, cat, [])"
      using pt(1) full by (simp add: hybrid_tiers_def)
    from tiers pt show ?thesis
      by (intro exI [of _ collab] exI [of _ cat] exI [of _ "[]"]) simp
  qed
qed

lemmas parse_defs =
  parseInt_def is_whitespace_def is_digit_def digit_value_def digits_value_def
  idSchema_def recommendationQuerySchema_def query_def Let_def

lemmas rec_example_defs = db_rec_def chair_def desk_def stool_def listed_def

lemmas rec_defs =
  getUserRecommendations_def hybrid_tiers_def personal_tiers_def
  getCollaborativeRecommendations_def getCategoryBasedRecommendations_def
  getPopularRecommendationsHelper_def findMany_userOrders_def in_completed_order_of_def
  List.map_filter_def js_Set_def orderBy_reviews_createdAt_def orderBy_orderItems_def
  ratings_of_def count_orderItems_def withRatings_def withRatingsAndOrderCount_def
  include_reviews_def include_reviews_count_def rec_id_def




section \<open>The user recommendation strategy\<close>






lemmas review_defs =
  createReview_def createReviewSchema_def in_completed_order_of_def next_id_def Let_def

lemmas review_example_defs = db_after_review_def db_rev_def review2_def rec_example_defs


section \<open>The similar-items strategy\<close>

text \<open>
  C5. For a furniture id that parses, a valid limit \<open>n\<close> and an existing
  reference furniture, the handler answers with at most \<open>n\<close> items; each is a
  furniture row whose price lies between 70 and 130 percent of the reference
  price (over the rationals), whose category is the reference's category and
  whose id is not the reference id.
\<close>

theorem similar_items_in_band:
  assumes "parseInt furnitureIdParam = Num furnitureId"
      and "recommendationQuerySchema q = (Num n, excludeId)"
      and "1 \<le> n" and "n \<le> 50"
      and "find (\<lambda>f. furniture_id f = furnitureId) (furnitures d) = Some reference"
  shows "\<exists>rs. getSimilarRecommendations d furnitureIdParam q
                = Inr \<lparr>recommendations = rs, algorithm = ''content-based''\<rparr>
            \<and> length rs \<le> nat n
            \<and> (\<forall>r \<in> set rs.
                  rec_row r \<in> set (furnitures d)
                \<and> in_band (furniture_price reference) (furniture_price (rec_row r))
                \<and> furniture_categoryId (rec_row r) = furniture_categoryId reference
                \<and> rec_id r \<noteq> furnitureId)"
proof -
  let ?P = "\<lambda>f. furniture_categoryId f = furniture_categoryId reference
               \<and> furniture_id f \<noteq> furnitureId
               \<and> furniture_price reference - furniture_price reference * (3 / 10) \<le> furniture_price f
               \<and> furniture_price f \<le> furniture_price reference + furniture_price reference * (3 / 10)"
  let ?fs = "take (nat n) (orderBy_reviews_createdAt d (filter ?P (furnitures d)))"
  let ?rs = "map (withRatings \<circ> include_reviews d) ?fs"
  have res: "getSimilarRecommendations d furnitureIdParam q
          = Inr \<lparr>recommendations = ?rs, algorithm = ''content-based''\<rparr>"
    using assms by (simp add: getSimilarRecommendations_def Let_def)
  have sub: "set ?fs \<subseteq> set (filter ?P (furnitures d))"
    using set_take_subset [of "nat n" "orderBy_reviews_createdAt d (filter ?P (furnitures d))"]
    by simp
  have "\<forall>r \<in> set ?rs.
          rec_row r \<in> set (furnitures d)
        \<and> in_band (furniture_price reference) (furniture_price (rec_row r))
        \<and> furniture_categoryId (rec_row r) = furniture_categoryId reference
        \<and> rec_id r \<noteq> furnitureId"
  proof
    fix r assume "r \<in> set ?rs"
    then obtain f where f: "f \<in> set ?fs" "r = withRatings (include_reviews d f)" by auto
    with sub have "f \<in> set (furnitures d)" "?P f" by auto
    with f(2) show "rec_row r \<in> set (furnitures d)
        \<and> in_band (furniture_price reference) (furniture_price (rec_row r))
        \<and> furniture_categoryId (rec_row r) = furniture_categoryId reference
        \<and> rec_id r \<noteq> furnitureId"
      by (simp add: in_band_def)
  qed
  moreover have "length ?rs \<le> nat n" by simp
  ultimately show ?thesis using res by blast
qed

theorem similar_items_in_band_witness:
  "parseInt ''1'' = Num 1
   \<and> recommendationQuerySchema (query None None) = (Num 10, None)
   \<and> find (\<lambda>f. furniture_id f = 1) (furnitures db_rec) = Some chair
   \<and> getSimilarRecommendations db_rec ''1'' (query None None)
       = Inr \<lparr>recommendations = [listed stool None 0 None], algorithm = ''content-based''\<rparr>
   \<and> in_band (furniture_price chair) (furniture_price stool)
   \<and> \<not> in_band (furniture_price chair) (furniture_price desk)
   \<and> furniture_categoryId stool = furniture_categoryId chair
   \<and> rec_id (listed stool None 0 None) \<noteq> 1"
proof -
  have a1: "parseInt ''1'' = Num 1" by (simp add: parse_defs)
  have a2: "recommendationQuerySchema (query None None) = (Num 10, None)"
    by (simp add: parse_defs)
  have a5: "find (\<lambda>f. furniture_id f = 1) (furnitures db_rec) = Some chair"
    by (simp add: rec_example_defs)
  have ev: "getSimilarRecommendations db_rec ''1'' (query None None)
       = Inr \<lparr>recommendations = [listed stool None 0 None], algorithm = ''content-based''\<rparr>"
    by (simp add: getSimilarRecommendations_def rec_defs rec_example_defs parse_defs)
  from similar_items_in_band [OF a1 a2 _ _ a5] ev
  have "in_band (furniture_price chair) (furniture_price (rec_row (listed stool None 0 None)))
      \<and> furniture_categoryId (rec_row (listed stool None 0 None)) = furniture_categoryId chair
      \<and> rec_id (listed stool None 0 None) \<noteq> 1"
    by auto
  then have b: "in_band (furniture_price chair) (furniture_price stool)
      \<and> furniture_categoryId stool = furniture_categoryId chair
      \<and> rec_id (listed stool None 0 None) \<noteq> 1"
    by (simp add: listed_def)
  have c: "\<not> in_band (furniture_price chair) (furniture_price desk)"
    by (simp add: in_band_def chair_def desk_def)
  from a1 a2 a5 ev b c show ?thesis by simp
qed

section \<open>The rating aggregate\<close>

lemma getUserRecommendations_rated:
  assumes "getUserRecommendations d userIdParam q = Inr res"
  shows "list_all (rated d) (recommendations res)"
proof -
  from assms obtain userId limit excludeId where
    p: "idSchema userIdParam = Inr userId" "recommendationQuerySchema q = (limit, excludeId)"
       "\<not> (js_lt limit (Num 1) \<or> js_gt limit (Num 50))"
    by (auto simp: getUserRecommendations_def split: sum.splits prod.splits if_splits)
  from assms p obtain collab cat popular where
    t: "hybrid_tiers d userId limit excludeId = Inr (collab, cat, popular)"
       "recommendations res = js_slice0 (collab @ cat @ popular) limit"
    by (auto simp: getUserRecommendations_def split: sum.splits prod.splits if_splits)
  show ?thesis
  proof (cases limit)
    case NaN
    with t(2) show ?thesis by simp
  next
    case (Num n)
    with p(3) have n: "0 < n" by simp
    from hybrid_tiers_props [OF n, of d userId excludeId] t(1) Num
    have "\<forall>r \<in> set (collab @ cat @ popular). rated d r" by auto
    moreover from t(2) Num n have "set (recommendations res) \<subseteq> set (collab @ cat @ popular)"
      using set_take_subset [of "nat n" "collab @ cat @ popular"] by simp
    ultimately show ?thesis by (auto simp: list_all_iff)
  qed
qed

lemma getPopularItems_rated:
  assumes "getPopularItems d q = Inr res"
  shows "list_all (rated d) (recommendations res)"
proof -
  from assms obtain limit excludeId where
    p: "recommendationQuerySchema q = (limit, excludeId)"
       "\<not> (js_lt limit (Num 1) \<or> js_gt limit (Num 50))"
       "getPopularRecommendationsHelper d limit excludeId [] = Inr (recommendations res)"
    by (auto simp: getPopularItems_def split: sum.splits prod.splits if_splits)
  show ?thesis
  proof (cases limit)
    case NaN
    with p(3) show ?thesis by (simp add: getPopularRecommendationsHelper_def)
  next
    case (Num n)
    with p(2) have n: "0 \<le> n" by simp
    from getPopular_Num [OF p(3) [unfolded Num] n] show ?thesis
      by (auto simp: list_all_iff rated_withRatingsAndOrderCount)
  qed
qed

lemma getCategoryRecommendations_rated:
  assumes "getCategoryRecommendations d categoryIdParam q = Inr res"
  shows "list_all (rated d) (recommendations res)"
  using assms
  by (auto simp: getCategoryRecommendations_def list_all_iff rated_withRatings
           split: sum.splits prod.splits if_splits)

lemma getSimilarRecommendations_rated:
  assumes "getSimilarRecommendations d furnitureIdParam q = Inr res"
  shows "list_all (rated d) (recommendations res)"
  using assms
  by (auto simp: getSimilarRecommendations_def Let_def list_all_iff rated_withRatings
           split: sum.splits prod.splits if_splits jsnum.splits option.splits)

lemma getRecommendations_rated:
  assumes "getRecommendations d idParam = Inr rs"
  shows "list_all (rated d) rs"
  using assms
  by (auto simp: getRecommendations_def list_all_iff rated_withRatings
           split: sum.splits option.splits)

lemma listFurnitures_rated: "list_all (rated d) (listFurnitures d items)"
  by (simp add: listFurnitures_def list_all_iff rated_withRatings)

lemma foldl_rating_sum_list:
  "foldl (\<lambda>sum review. sum + review_rating review) a rs = a + sum_list (map review_rating rs)"
  by (induction rs arbitrary: a) simp_all

lemma getFurniture_detail_rated:
  assumes "getFurniture d fid = Inr x"
  shows "detail_rated d x"
proof -
  from assms obtain item where
    item: "find (\<lambda>f. furniture_id f = fid) (furnitures d) = Some item"
    by (auto simp: getFurniture_def split: option.splits)
  then have fid: "furniture_id item = fid" by (auto simp: find_Some_iff)
  let ?rs = "filter (\<lambda>r. review_furnitureId r = fid) (reviews d)"
  from assms item have x:
    "detail_row x = item" "detail_reviews x = rev ?rs" "detail_reviewCount x = length ?rs"
    "detail_averageRating x
       = (if ?rs = [] then None
          else Some (of_int (sum_list (map review_rating (rev ?rs))) / of_nat (length ?rs)))"
    by (auto simp: getFurniture_def Let_def foldl_rating_sum_list)
  have "sum_list (map review_rating (rev ?rs)) = sum_list (map review_rating ?rs)"
    by (simp add: rev_map [symmetric] sum_list_rev)
  with x fid show ?thesis
    by (simp add: detail_rated_def Let_def ratings_of_def mean_def)
qed

lemma getFurniture_example:
  "getFurniture db_rec 1
     = Inr \<lparr>detail_row = chair,
            detail_reviews = [\<lparr>review_id = 2, review_userId = 2, review_furnitureId = 1,
                               review_rating = 5, review_comment = None\<rparr>,
                              \<lparr>review_id = 1, review_userId = 1, review_furnitureId = 1,
                               review_rating = 4, review_comment = None\<rparr>],
            detail_averageRating = Some (9 / 2), detail_reviewCount = 2\<rparr>"
  by (simp add: getFurniture_def Let_def rec_example_defs)

text \<open>
  C6, counterexample. The specification has the review collection stripped
  from every furniture payload. The detail answer for the chair of the example store
  (GET /furnitures/1) carries the aggregate and also the two review rows
  themselves: the review collection is not stripped from this payload.
\<close>

theorem detail_keeps_reviews_counterexample:
  "getFurniture db_rec 1
     = Inr \<lparr>detail_row = chair,
            detail_reviews = [\<lparr>review_id = 2, review_userId = 2, review_furnitureId = 1,
                               review_rating = 5, review_comment = None\<rparr>,
                              \<lparr>review_id = 1, review_userId = 1, review_furnitureId = 1,
                               review_rating = 4, review_comment = None\<rparr>],
            detail_averageRating = Some (9 / 2), detail_reviewCount = 2\<rparr>
   \<and> filter (\<lambda>r. review_furnitureId r = 1) (reviews db_rec) \<noteq> []"
  by (simp add: getFurniture_example) (simp add: db_rec_def)

text \<open>
  C6, in the form that holds. Every item that a recommendation handler, the furniture list or
  the furniture route's recommendations return carries the aggregate of the
  reviews stored for its furniture: \<^verbatim>\<open>averageRating\<close> is the arithmetic mean of
  their ratings (over the rationals) and is null exactly when there is no
  review, \<^verbatim>\<open>reviewCount\<close> is their number, and the review collection itself is
  not part of the item. The detail answer carries the same two aggregate
  fields, and keeps the review rows of its furniture.
\<close>

theorem ratings_aggregated:
  "(getUserRecommendations d userIdParam q = Inr res \<longrightarrow> list_all (rated d) (recommendations res))
   \<and> (getPopularItems d q = Inr res \<longrightarrow> list_all (rated d) (recommendations res))
   \<and> (getCategoryRecommendations d categoryIdParam q = Inr res
        \<longrightarrow> list_all (rated d) (recommendations res))
   \<and> (getSimilarRecommendations d furnitureIdParam q = Inr res
        \<longrightarrow> list_all (rated d) (recommendations res))
   \<and> (getRecommendations d idParam = Inr rs \<longrightarrow> list_all (rated d) rs)
   \<and> list_all (rated d) (listFurnitures d items)
   \<and> (getFurniture d fid = Inr x \<longrightarrow> detail_rated d x)"
  using getUserRecommendations_rated [of d userIdParam q res]
        getPopularItems_rated [of d q res]
        getCategoryRecommendations_rated [of d categoryIdParam q res]
        getSimilarRecommendations_rated [of d furnitureIdParam q res]
        getRecommendations_rated [of d idParam rs]
        listFurnitures_rated [of d items]
        getFurniture_detail_rated [of d fid x]
  by blast

theorem ratings_aggregated_witness:
  "getCategoryRecommendations db_rec ''1'' (query None None)
     = Inr \<lparr>recommendations = [listed chair (Some (9 / 2)) 2 None, listed stool None 0 None,
                               listed desk None 0 None],
            algorithm = ''category-based''\<rparr>
   \<and> ratings_of db_rec 1 = [4, 5] \<and> mean [4, 5] = 9 / 2
   \<and> ratings_of db_rec 3 = []
   \<and> rated db_rec (listed chair (Some (9 / 2)) 2 None)
   \<and> rated db_rec (listed stool None 0 None)
   \<and> rated db_rec (listed desk None 0 None)
   \<and> getRecommendations db_rec ''1''
       = Inr [listed desk None 0 None, listed stool None 0 None]
   \<and> detail_rated db_rec
       \<lparr>detail_row = chair,
        detail_reviews = [\<lparr>review_id = 2, review_userId = 2, review_furnitureId = 1,
                           review_rating = 5, review_comment = None\<rparr>,
                          \<lparr>review_id = 1, review_userId = 1, review_furnitureId = 1,
                           review_rating = 4, review_comment = None\<rparr>],
        detail_averageRating = Some (9 / 2), detail_reviewCount = 2\<rparr>"
proof -
  let ?res = "\<lparr>recommendations = [listed chair (Some (9 / 2)) 2 None, listed stool None 0 None,
                                  listed desk None 0 None],
               algorithm = ''category-based''\<rparr>"
  let ?x = "\<lparr>detail_row = chair,
        detail_reviews = [\<lparr>review_id = 2, review_userId = 2, review_furnitureId = 1,
                           review_rating = 5, review_comment = None\<rparr>,
                          \<lparr>review_id = 1, review_userId = 1, review_furnitureId = 1,
                           review_rating = 4, review_comment = None\<rparr>],
        detail_averageRating = Some (9 / 2), detail_reviewCount = 2\<rparr>"
  have ev: "getCategoryRecommendations db_rec ''1'' (query None None) = Inr ?res"
    by (simp add: getCategoryRecommendations_def rec_defs rec_example_defs parse_defs)
  have ev2: "getRecommendations db_rec ''1''
       = Inr [listed desk None 0 None, listed stool None 0 None]"
    by (simp add: getRecommendations_def rec_defs rec_example_defs parse_defs)
  note inst = ratings_aggregated
    [where d = db_rec and q = "query None None" and categoryIdParam = "''1''" and res = ?res
       and fid = 1 and x = ?x]
  from inst ev
  have r: "rated db_rec (listed chair (Some (9 / 2)) 2 None)
         \<and> rated db_rec (listed stool None 0 None)
         \<and> rated db_rec (listed desk None 0 None)"
    by simp
  from inst getFurniture_example have dr: "detail_rated db_rec ?x"
    by simp
  have a: "ratings_of db_rec 1 = [4, 5]" "ratings_of db_rec 3 = []"
    by (simp_all add: ratings_of_def db_rec_def)
  have m: "mean [4, 5] = 9 / 2" by (simp add: mean_def)
  from r have r1: "rated db_rec (listed chair (Some (9 / 2)) 2 None)"
    and r2: "rated db_rec (listed stool None 0 None)"
    and r3: "rated db_rec (listed desk None 0 None)"
    by simp_all
  from ev a(1) m a(2) r1 r2 r3 ev2 dr show ?thesis by (intro conjI)
qed

section \<open>The limit guard\<close>

lemma limit_absent_default:
  "fst (recommendationQuerySchema (query None e)) = Num 10"
  "\<not> (js_lt (Num 10) (Num 1) \<or> js_gt (Num 10) (Num 50))"
  by (simp_all add: recommendationQuerySchema_def query_def)

lemma limit_out_of_range_rejected:
  assumes "recommendationQuerySchema q = (Num n, excludeId)" and "n < 1 \<or> 50 < n"
  shows "getPopularItems d q = Inl (ApiError 400 ''Limit must be between 1 and 50'')"
    and "idSchema p = Inr i \<Longrightarrow>
           getUserRecommendations d p q = Inl (ApiError 400 ''Limit must be between 1 and 50'')"
    and "idSchema p = Inr i \<Longrightarrow>
           getCategoryRecommendations d p q = Inl (ApiError 400 ''Limit must be between 1 and 50'')"
    and "parseInt p = Num i \<Longrightarrow>
           getSimilarRecommendations d p q = Inl (ApiError 400 ''Limit must be between 1 and 50'')"
  using assms
  by (auto simp: getPopularItems_def getUserRecommendations_def getCategoryRecommendations_def
        getSimilarRecommendations_def)

text \<open>
  C8. A limit that does not parse as a number is not rejected: \<^verbatim>\<open>parseInt\<close>
  gives \<^verbatim>\<open>NaN\<close>, both comparisons of the guard are false, and the handlers go on
  to their data queries. With \<^verbatim>\<open>limit=abc\<close>, user 3 of the example store (who
  exists and bought nothing) gets a successful, empty answer; an unknown user,
  category or furniture gets the 404 of the lookup that follows the guard.
\<close>

theorem nan_limit_passes_guard:
  "recommendationQuerySchema (query (Some ''abc'') None) = (NaN, None)
   \<and> getUserRecommendations db_rec ''3'' (query (Some ''abc'') None)
       = Inr \<lparr>recommendations = [], algorithm = ''popular''\<rparr>
   \<and> getUserRecommendations db_rec ''9'' (query (Some ''abc'') None)
       = Inl (ApiError 404 ''User not found'')
   \<and> getCategoryRecommendations db_rec ''7'' (query (Some ''abc'') None)
       = Inl (ApiError 404 ''Category not found'')
   \<and> getSimilarRecommendations db_rec ''7'' (query (Some ''abc'') None)
       = Inl (ApiError 404 ''Furniture not found'')"
  by (simp add: getCategoryRecommendations_def getSimilarRecommendations_def
        rec_defs rec_example_defs parse_defs)

section \<open>Reviews\<close>

lemma createReview_Inl_unchanged:
  "createReview d f u r c = (Inl e, d') \<Longrightarrow> d' = d"
  by (auto simp: createReview_def Let_def split: if_splits)

lemma createReview_Inr:
  assumes "createReview d f u r c = (Inr rv, d')"
  shows "has_purchased d u f \<and> (u, f) \<notin> set (review_pairs d)
       \<and> reviews d' = reviews d @ [rv] \<and> review_userId rv = u \<and> review_furnitureId rv = f
       \<and> users d' = users d \<and> furnitures d' = furnitures d
       \<and> orders d' = orders d \<and> orderItems d' = orderItems d"
proof -
  from assms have
    pur: "find (\<lambda>oi. orderItem_furnitureId oi = f \<and> in_completed_order_of d u oi) (orderItems d)
            \<noteq> None"
    and ex: "find (\<lambda>r. review_userId r = u \<and> review_furnitureId r = f) (reviews d) = None"
    and rest: "reviews d' = reviews d @ [rv]" "review_userId rv = u" "review_furnitureId rv = f"
      "users d' = users d" "furnitures d' = furnitures d"
      "orders d' = orders d" "orderItems d' = orderItems d"
    by (auto simp: createReview_def Let_def split: if_splits)
  from pur have "has_purchased d u f"
    by (auto simp: has_purchased_def find_None_iff)
  moreover from ex have "(u, f) \<notin> set (review_pairs d)"
    by (auto simp: review_pairs_def find_None_iff)
  ultimately show ?thesis using rest by simp
qed

lemma createReview_existing:
  assumes "(u, f) \<in> set (review_pairs d)"
  shows "\<exists>e. createReview d f u r c = (Inl e, d)"
proof -
  from assms have "find (\<lambda>r. review_userId r = u \<and> review_furnitureId r = f) (reviews d) \<noteq> None"
    by (auto simp: review_pairs_def find_None_iff)
  then show ?thesis by (simp add: createReview_def Let_def)
qed

lemma createReview_not_purchased:
  assumes "\<not> has_purchased d u f"
  shows "\<exists>e. createReview d f u r c = (Inl e, d)"
proof -
  from assms have
    "find (\<lambda>oi. orderItem_furnitureId oi = f \<and> in_completed_order_of d u oi) (orderItems d) = None"
    by (auto simp: has_purchased_def find_None_iff)
  then show ?thesis by (simp add: createReview_def Let_def)
qed

text \<open>
  C9. A review is created only when the user has an order item for the
  furniture in a COMPLETED order; without one the request fails and the store is
  unchanged. A successful creation appends exactly one review for the pair, and
  it keeps the pairs of user and furniture in the review table distinct. Once a
  review for the pair exists, every further creation attempt for that pair
  fails and leaves the store unchanged.
\<close>

theorem review_purchase_gated_and_unique:
  "(createReview d f u r c = (Inr rv, d') \<longrightarrow>
        has_purchased d u f \<and> reviews d' = reviews d @ [rv]
      \<and> review_userId rv = u \<and> review_furnitureId rv = f
      \<and> (\<forall>r2 c2. \<exists>e. createReview d' f u r2 c2 = (Inl e, d')))
   \<and> (\<not> has_purchased d u f \<longrightarrow> (\<exists>e. createReview d f u r c = (Inl e, d)))
   \<and> ((u, f) \<in> set (review_pairs d) \<longrightarrow> (\<exists>e. createReview d f u r c = (Inl e, d)))
   \<and> (distinct (review_pairs d) \<longrightarrow> distinct (review_pairs (snd (createReview d f u r c))))"
proof (intro conjI impI)
  assume ok: "createReview d f u r c = (Inr rv, d')"
  note r = createReview_Inr [OF ok]
  from r show "has_purchased d u f" "reviews d' = reviews d @ [rv]"
    "review_userId rv = u" "review_furnitureId rv = f" by simp_all
  from r have "(u, f) \<in> set (review_pairs d')" by (simp add: review_pairs_def)
  then show "\<forall>r2 c2. \<exists>e. createReview d' f u r2 c2 = (Inl e, d')"
    using createReview_existing by blast
next
  assume "\<not> has_purchased d u f"
  then show "\<exists>e. createReview d f u r c = (Inl e, d)" by (rule createReview_not_purchased)
next
  assume "(u, f) \<in> set (review_pairs d)"
  then show "\<exists>e. createReview d f u r c = (Inl e, d)" by (rule createReview_existing)
next
  assume dist: "distinct (review_pairs d)"
  show "distinct (review_pairs (snd (createReview d f u r c)))"
  proof (cases "fst (createReview d f u r c)")
    case (Inl e)
    then have "createReview d f u r c = (Inl e, snd (createReview d f u r c))"
      by (metis prod.collapse)
    from createReview_Inl_unchanged [OF this] dist show ?thesis by simp
  next
    case (Inr rv)
    then have "createReview d f u r c = (Inr rv, snd (createReview d f u r c))"
      by (metis prod.collapse)
    from createReview_Inr [OF this] dist show ?thesis
      by (simp add: review_pairs_def)
  qed
qed

theorem review_purchase_gated_and_unique_witness:
  "createReview db_rev 1 2 5 (Some ''sturdy'') = (Inr review2, db_after_review)
   \<and> has_purchased db_rev 2 1
   \<and> createReview db_after_review 1 2 3 None
       = (Inl (ApiError 400 ''You have already reviewed this furniture item''), db_after_review)
   \<and> \<not> has_purchased db_rev 3 1
   \<and> createReview db_rev 1 3 5 None
       = (Inl (ApiError 403 ''You can only review furniture items you have purchased''), db_rev)
   \<and> distinct (review_pairs db_rev)
   \<and> distinct (review_pairs db_after_review)"
proof -
  have ev: "createReview db_rev 1 2 5 (Some ''sturdy'') = (Inr review2, db_after_review)"
    by (simp add: review_defs review_example_defs)
  note inst = review_purchase_gated_and_unique
    [of db_rev 1 2 5 "Some ''sturdy''" review2 db_after_review]
  from inst have
    "createReview db_rev 1 2 5 (Some ''sturdy'') = (Inr review2, db_after_review) \<longrightarrow>
        has_purchased db_rev 2 1 \<and> reviews db_after_review = reviews db_rev @ [review2]
      \<and> review_userId review2 = 2 \<and> review_furnitureId review2 = 1
      \<and> (\<forall>r2 c2. \<exists>e. createReview db_after_review 1 2 r2 c2 = (Inl e, db_after_review))"
    by (rule conjunct1)
  from this ev have
    c: "has_purchased db_rev 2 1 \<and> reviews db_after_review = reviews db_rev @ [review2]
      \<and> review_userId review2 = 2 \<and> review_furnitureId review2 = 1
      \<and> (\<forall>r2 c2. \<exists>e. createReview db_after_review 1 2 r2 c2 = (Inl e, db_after_review))"
    by (rule mp)
  then have p: "has_purchased db_rev 2 1" by (rule conjunct1)
  from c have "\<exists>e. createReview db_after_review 1 2 3 None = (Inl e, db_after_review)"
    by simp
  then have s2: "snd (createReview db_after_review 1 2 3 None) = db_after_review"
    by auto
  have f2: "fst (createReview db_after_review 1 2 3 None)
          = Inl (ApiError 400 ''You have already reviewed this furniture item'')"
    by (simp add: review_defs review_example_defs)
  from f2 s2 have second: "createReview db_after_review 1 2 3 None
       = (Inl (ApiError 400 ''You have already reviewed this furniture item''), db_after_review)"
    by (simp add: prod_eq_iff)
  have np: "\<not> has_purchased db_rev 3 1"
    by (simp add: has_purchased_def in_completed_order_of_def review_example_defs)
  have third: "createReview db_rev 1 3 5 None
       = (Inl (ApiError 403 ''You can only review furniture items you have purchased''), db_rev)"
    by (simp add: review_defs review_example_defs)
  have d0: "distinct (review_pairs db_rev)"
    by (simp add: review_pairs_def review_example_defs)
  have d1: "distinct (review_pairs db_after_review)"
    by (simp add: review_pairs_def review_example_defs)
  from ev p second np third d0 d1 show ?thesis by (intro conjI)
qed

end
